theory Spec2Isabelle
  imports
    Complex_Main
    "HOL-Library.Monad_Syntax"
    "HOL-Library.Char_ord"
    "HOL-Library.List_Lexorder"
    "HOL-Library.Product_Lexorder"
begin

section \<open>Numeric primitives\<close>

text \<open>
  The analysis code computes on numpy float64 arrays. The statistics of this section
  and the calculators built on them compute on the reals: rounding is not modelled,
  and a result that is not a real number is the value \<open>None\<close>. numpy produces
  \<open>nan\<close> or \<open>inf\<close> there (with a RuntimeWarning) or raises: the mean of an empty
  array, a division by zero, a percentile of an empty array or with a rank outside
  0..100. The alert engine, whose decisions depend on single roundings, is modelled
  over the computed numbers instead (see there).
\<close>

definition fdiv :: "real \<Rightarrow> real \<Rightarrow> real option" where
  \<comment> \<open>float division \<open>a / b\<close>\<close>
  "fdiv a b = (if b = 0 then None else Some (a / b))"

definition np_mean :: "real list \<Rightarrow> real option" where
  \<comment> \<open>\<open>np.mean\<close>, also pandas \<open>Series.mean\<close>\<close>
  "np_mean xs = (if xs = [] then None else fdiv (sum_list xs) (real (length xs)))"

definition np_std :: "real list \<Rightarrow> real option" where
  \<comment> \<open>\<open>np.std\<close> with its default \<open>ddof=0\<close>: the root of the mean squared deviation\<close>
  "np_std xs = do {
     m \<leftarrow> np_mean xs;
     v \<leftarrow> np_mean (map (\<lambda>x. (x - m)\<^sup>2) xs);
     Some (sqrt v)
   }"

definition np_percentile :: "real list \<Rightarrow> nat \<Rightarrow> real option" where
  \<comment> \<open>\<open>np.percentile\<close> with its default linear interpolation: the virtual index is
      \<open>(n - 1) * q / 100\<close>, split here into its integer part \<open>lo\<close> and its fraction\<close>
  "np_percentile xs q =
     (if xs = [] \<or> q > 100 then None
      else
        let s = sort xs;
            n = length xs;
            pos = (n - 1) * q;
            lo = pos div 100;
            hi = min (lo + 1) (n - 1);
            frac = real (pos mod 100) / 100
        in Some (s ! lo + frac * (s ! hi - s ! lo)))"

section \<open>Frequency pattern detector (frequency\_detector.py)\<close>

datatype frequency =
    Daily | Weekly | Biweekly | Monthly | Quarterly | Semi_annual | Irregular
  | Insufficient_data | Single_occurrence

text \<open>
  Dates are day numbers. \<open>gaps_of\<close> is the comprehension
  \<^verbatim>\<open>[(dates[i+1] - dates[i]).days for i in range(len(dates)-1)]\<close>.
\<close>

fun gaps_of :: "int list \<Rightarrow> int list" where
  "gaps_of (a # b # ds) = (b - a) # gaps_of (b # ds)"
| "gaps_of _ = []"

definition frequency_by_gap :: "real \<Rightarrow> real \<Rightarrow> frequency \<times> real" where
  \<comment> \<open>the \<open>if\<close>/\<open>elif\<close> chain on \<open>avg_gap\<close>: the pair (frequency, confidence)\<close>
  "frequency_by_gap avg_gap regularity_score =
     (if avg_gap \<le> 10 \<and> regularity_score > 0.5 then (Daily, regularity_score)
      else if 10 < avg_gap \<and> avg_gap \<le> 21 \<and> regularity_score > 0.4
        then (Weekly, regularity_score)
      else if 21 < avg_gap \<and> avg_gap \<le> 45
        then (if regularity_score > 0.4 then Biweekly else Monthly, regularity_score)
      else if 45 < avg_gap \<and> avg_gap \<le> 120
        then (if regularity_score > 0.5 then Monthly else Quarterly, regularity_score * 0.8)
      else if 120 < avg_gap \<and> avg_gap \<le> 270
        then (if regularity_score > 0.5 then Quarterly else Semi_annual, regularity_score * 0.7)
      else (if regularity_score > 0.3 then Semi_annual else Irregular, regularity_score * 0.5))"

definition analyze_occurrence_pattern ::
  "int list \<Rightarrow> (frequency \<times> real \<times> real \<times> real) option" where
  \<comment> \<open>returns (frequency, confidence, avg\_gap, regularity\_score)\<close>
  "analyze_occurrence_pattern dates0 =
     (if length dates0 < 2 then Some (Insufficient_data, 0, 0, 0)
      else
        let dates = sort dates0;
            gaps = map real_of_int (gaps_of dates)
        in if length gaps = 0 then Some (Single_occurrence, 0, 0, 0)
           else do {
             avg_gap \<leftarrow> np_mean gaps;
             std_gap \<leftarrow> np_std gaps;
             cv_gap \<leftarrow> (if avg_gap > 0 then fdiv std_gap avg_gap else Some 1);
             let regularity_score = max 0 (1 - min cv_gap 1);
             let (frequency, confidence) = frequency_by_gap avg_gap regularity_score;
             let (frequency, confidence) =
               (if regularity_score < 0.3 \<and> length gaps > 3
                then (Irregular, 1 - regularity_score)
                else (frequency, confidence));
             Some (frequency, confidence, avg_gap, regularity_score)
           })"

section \<open>Sensitivity table\<close>

datatype sensitivity = Sens_high | Sens_medium | Sens_low

record config =
  z_score :: real
  percentile :: nat
  min_weeks :: nat

definition SENSITIVITY_CONFIGS :: "sensitivity \<Rightarrow> config" where
  \<comment> \<open>weekly\_monitoring.py; the \<open>description\<close> strings are left out\<close>
  "SENSITIVITY_CONFIGS s =
     (case s of
        Sens_high \<Rightarrow> \<lparr>z_score = 1.5, percentile = 10, min_weeks = 4\<rparr>
      | Sens_medium \<Rightarrow> \<lparr>z_score = 2.0, percentile = 5, min_weeks = 6\<rparr>
      | Sens_low \<Rightarrow> \<lparr>z_score = 2.5, percentile = 2, min_weeks = 8\<rparr>)"

definition SENSITIVITY_LEVELS :: "sensitivity \<Rightarrow> config" where
  \<comment> \<open>volume\_analysis.py and volume\_analysis\_v2.py: the same three entries\<close>
  "SENSITIVITY_LEVELS s =
     (case s of
        Sens_high \<Rightarrow> \<lparr>z_score = 1.5, percentile = 10, min_weeks = 4\<rparr>
      | Sens_medium \<Rightarrow> \<lparr>z_score = 2.0, percentile = 5, min_weeks = 6\<rparr>
      | Sens_low \<Rightarrow> \<lparr>z_score = 2.5, percentile = 2, min_weeks = 8\<rparr>)"

section \<open>Dynamic threshold calculators\<close>

subsection \<open>weekly\_monitoring.py: calculate\_dynamic\_threshold\<close>

record threshold_info =
  ti_threshold :: real
  ti_mean :: real
  ti_std :: real
  ti_z_score :: real
  ti_percentile :: real
  ti_iqr :: real

definition calculate_dynamic_threshold ::
  "real list \<Rightarrow> sensitivity \<Rightarrow> threshold_info option" where
  "calculate_dynamic_threshold volumes sens =
     (let config = SENSITIVITY_CONFIGS sens in do {
        mean_vol \<leftarrow> np_mean volumes;
        std_vol \<leftarrow> np_std volumes;
        let z_threshold = max 0 (mean_vol - z_score config * std_vol);
        percentile_threshold \<leftarrow> np_percentile volumes (percentile config);
        q1 \<leftarrow> np_percentile volumes 25;
        q3 \<leftarrow> np_percentile volumes 75;
        let iqr = q3 - q1;
        let iqr_threshold = max 0 (q1 - 1.5 * iqr);
        let final_threshold = max (max z_threshold percentile_threshold) iqr_threshold;
        Some \<lparr>ti_threshold = final_threshold, ti_mean = mean_vol, ti_std = std_vol,
              ti_z_score = z_threshold, ti_percentile = percentile_threshold,
              ti_iqr = iqr_threshold\<rparr>
      })"

subsection \<open>volume\_analysis.py: calculate\_thresholds\<close>

record thresholds =
  th_mean :: real
  th_std :: real
  th_z_score_threshold :: real
  th_percentile_threshold :: real
  th_iqr_threshold :: real
  th_percentage_threshold :: real
  th_final_threshold :: real
  th_cv :: real

definition calculate_thresholds :: "real list \<Rightarrow> sensitivity \<Rightarrow> thresholds option" where
  \<comment> \<open>\<open>volumes\<close> is the \<open>volume\<close> column of \<open>group_df\<close>\<close>
  "calculate_thresholds volumes sens =
     (let config = SENSITIVITY_LEVELS sens in do {
        mean_vol \<leftarrow> np_mean volumes;
        std_vol \<leftarrow> np_std volumes;
        let z_threshold = max 0 (mean_vol - z_score config * std_vol);
        percentile_threshold \<leftarrow> np_percentile volumes (percentile config);
        q1 \<leftarrow> np_percentile volumes 25;
        q3 \<leftarrow> np_percentile volumes 75;
        let iqr = q3 - q1;
        let iqr_threshold = max 0 (q1 - 1.5 * iqr);
        let percentage_threshold = mean_vol * 0.7;
        let final_threshold = max (max z_threshold percentile_threshold) iqr_threshold;
        cv \<leftarrow> (if mean_vol > 0 then fdiv std_vol mean_vol else Some 0);
        Some \<lparr>th_mean = mean_vol, th_std = std_vol, th_z_score_threshold = z_threshold,
              th_percentile_threshold = percentile_threshold,
              th_iqr_threshold = iqr_threshold,
              th_percentage_threshold = percentage_threshold,
              th_final_threshold = final_threshold, th_cv = cv\<rparr>
      })"

subsection \<open>volume\_analysis\_v2.py: the pattern-aware threshold of main\<close>

record threshold_row =
  tr_regularity_score :: real
  tr_mean_volume :: real
  tr_std_volume :: real
  tr_threshold :: real
  tr_adjusted_z_score :: real
  tr_z_threshold :: real
  tr_percentile_threshold :: real
  tr_iqr_threshold :: real

definition pattern_aware_threshold ::
  "sensitivity \<Rightarrow> real \<Rightarrow> real list \<Rightarrow> threshold_row option" where
  \<comment> \<open>the body of the loop over \<open>freq_df\<close>, for a group that passed the \<open>min_weeks\<close>
      guard: \<open>regularity_factor\<close> is the row's \<open>regularity_score\<close>, \<open>volumes\<close> the
      group's \<open>volume\<close> column\<close>
  "pattern_aware_threshold sens regularity_factor volumes =
     (let config = SENSITIVITY_LEVELS sens in do {
        mean_vol \<leftarrow> np_mean volumes;
        std_vol \<leftarrow> np_std volumes;
        let adjusted_z = z_score config * (1 + (1 - regularity_factor) * 0.5);
        let z_threshold = max 0 (mean_vol - adjusted_z * std_vol);
        percentile_threshold \<leftarrow> np_percentile volumes (percentile config);
        q1 \<leftarrow> np_percentile volumes 25;
        q3 \<leftarrow> np_percentile volumes 75;
        let iqr = q3 - q1;
        let iqr_threshold = max 0 (q1 - 1.5 * iqr);
        let final_threshold = max (max z_threshold percentile_threshold) iqr_threshold;
        Some \<lparr>tr_regularity_score = regularity_factor, tr_mean_volume = mean_vol,
              tr_std_volume = std_vol, tr_threshold = final_threshold,
              tr_adjusted_z_score = adjusted_z, tr_z_threshold = z_threshold,
              tr_percentile_threshold = percentile_threshold,
              tr_iqr_threshold = iqr_threshold\<rparr>
      })"

section \<open>Multi-window trend analyzer (trend\_analyzer.py)\<close>

datatype trend =
  Increasing | Decreasing | Stable | Trend_no_data | Trend_insufficient_data

record trend_metrics =
  avg_volume :: real
  total_volume :: real
  trend_direction :: trend
  growth_rate_pct :: real
  volatility :: real
  slope :: real
  data_points :: nat
  min_volume :: "real option"
  max_volume :: "real option"
  median_volume :: "real option"

definition np_median :: "real list \<Rightarrow> real option" where
  "np_median xs =
     (if xs = [] then None
      else
        let s = sort xs; n = length xs
        in Some (if odd n then s ! (n div 2) else (s ! (n div 2 - 1) + s ! (n div 2)) / 2))"

definition linregress_slope :: "real list \<Rightarrow> real list \<Rightarrow> real option" where
  \<comment> \<open>the \<open>slope\<close> of \<open>scipy.stats.linregress(x, y)\<close>: the covariance of x and y over
      the variance of x\<close>
  "linregress_slope x y = do {
     xmean \<leftarrow> np_mean x;
     ymean \<leftarrow> np_mean y;
     ssxm \<leftarrow> np_mean (map (\<lambda>a. (a - xmean)\<^sup>2) x);
     ssxym \<leftarrow> np_mean (map (\<lambda>(a, b). (a - xmean) * (b - ymean)) (zip x y));
     fdiv ssxym ssxm
   }"

definition first_half_avg :: "real list \<Rightarrow> real option" where
  \<comment> \<open>evaluated only where \<open>len(volumes) >= 2\<close>\<close>
  "first_half_avg volumes =
     (if length volumes \<ge> 4 then np_mean (take (length volumes div 2) volumes)
      else Some (volumes ! 0))"

definition second_half_avg :: "real list \<Rightarrow> real option" where
  "second_half_avg volumes =
     (if length volumes \<ge> 4 then np_mean (drop (length volumes div 2) volumes)
      else Some (last volumes))"

definition calculate_trend_metrics :: "real list \<Rightarrow> int list \<Rightarrow> trend_metrics option" where
  \<comment> \<open>the dictionary of the empty case has no min, max and median entries\<close>
  "calculate_trend_metrics volumes dates =
     (if length volumes = 0 then
        Some \<lparr>avg_volume = 0, total_volume = 0, trend_direction = Trend_no_data,
              growth_rate_pct = 0, volatility = 0, slope = 0, data_points = 0,
              min_volume = None, max_volume = None, median_volume = None\<rparr>
      else do {
        avg \<leftarrow> np_mean volumes;
        let total = sum_list volumes;
        vol \<leftarrow> (if avg > 0 then do { s \<leftarrow> np_std volumes; fdiv s avg } else Some 0);
        (sl, growth_rate, direction) \<leftarrow>
          (if length volumes \<ge> 2 then do {
             let x = map real [0..<length volumes];
             sl \<leftarrow> linregress_slope x volumes;
             first \<leftarrow> first_half_avg volumes;
             second \<leftarrow> second_half_avg volumes;
             growth_rate \<leftarrow>
               (if first > 0 then do { q \<leftarrow> fdiv (second - first) first; Some (q * 100) }
                else Some 0);
             let direction =
               (if \<bar>growth_rate\<bar> < 5 then Stable
                else if growth_rate > 5 then Increasing
                else Decreasing);
             Some (sl, growth_rate, direction)
           }
           else Some (0, 0, Trend_insufficient_data));
        med \<leftarrow> np_median volumes;
        Some \<lparr>avg_volume = avg, total_volume = total, trend_direction = direction,
              growth_rate_pct = growth_rate, volatility = vol, slope = sl,
              data_points = length volumes,
              min_volume = Some (Min (set volumes)), max_volume = Some (Max (set volumes)),
              median_volume = Some med\<rparr>
      })"

section \<open>Observations\<close>

text \<open>
  A data frame is the list of its rows, in row order. \<open>week_start_date\<close> is a day
  number, \<open>volume\<close> the integer count of the CSV file.
\<close>

record row =
  app :: string
  message_type :: string
  week_start_date :: int
  volume :: int

definition key_of :: "row \<Rightarrow> string \<times> string" where
  "key_of r = (app r, message_type r)"

definition groupby :: "row list \<Rightarrow> ((string \<times> string) \<times> row list) list" where
  \<comment> \<open>\<open>df.groupby(['app', 'message_type'])\<close>: the groups in the order of their sorted
      keys, each with its rows in row order\<close>
  "groupby df =
     map (\<lambda>k. (k, filter (\<lambda>r. key_of r = k) df)) (sort (remdups (map key_of df)))"

definition volumes_of :: "row list \<Rightarrow> real list" where
  \<comment> \<open>\<open>df['volume'].values\<close>\<close>
  "volumes_of rows = map (\<lambda>r. real_of_int (volume r)) rows"

definition tail :: "nat \<Rightarrow> 'a list \<Rightarrow> 'a list" where
  \<comment> \<open>\<open>df.tail(n)\<close>: the last n rows\<close>
  "tail n xs = drop (length xs - n) xs"

subsection \<open>trend\_analyzer.py on data frames\<close>

definition windows :: "(string \<times> nat) list" where
  "windows = [(''2_weeks'', 2), (''1_month'', 4), (''3_months'', 13), (''6_months'', 26),
              (''9_months'', 39), (''12_months'', 52), (''18_months'', 78)]"

definition analyze_trends_multi_window ::
  "row list \<Rightarrow> int \<Rightarrow> (string \<times> trend_metrics option) list" where
  \<comment> \<open>\<open>reference_date\<close> given; \<open>timedelta(weeks=w)\<close> is \<open>7 * w\<close> days\<close>
  "analyze_trends_multi_window group_df reference_date =
     map (\<lambda>(window_name, weeks_back).
            let cutoff_date = reference_date - 7 * int weeks_back;
                window_data =
                  sort_key week_start_date
                    (filter (\<lambda>r. week_start_date r > cutoff_date
                                 \<and> week_start_date r \<le> reference_date) group_df)
            in (window_name,
                calculate_trend_metrics (volumes_of window_data)
                  (map week_start_date window_data)))
         windows"

datatype status =
  Status_normal | Status_increasing | Status_decreasing | Status_insufficient_data

record comparison =
  recent_avg :: real
  historical_avg :: real
  change_pct :: real
  status :: status
  recent_weeks :: "nat option"

definition compare_recent_to_historical :: "row list \<Rightarrow> nat \<Rightarrow> comparison option" where
  \<comment> \<open>\<open>iloc[:-recent_weeks]\<close> is empty when \<open>recent_weeks\<close> is 0; the dictionary of
      the short case has no \<open>recent_weeks\<close> entry\<close>
  "compare_recent_to_historical group_df n_recent =
     (if length group_df < n_recent + 4 then
        Some \<lparr>recent_avg = 0, historical_avg = 0, change_pct = 0,
              status = Status_insufficient_data, recent_weeks = None\<rparr>
      else
        let df_sorted = sort_key week_start_date group_df;
            recent_data = tail n_recent df_sorted;
            historical_data =
              (if n_recent = 0 then [] else take (length df_sorted - n_recent) df_sorted)
        in do {
          r_avg \<leftarrow> np_mean (volumes_of recent_data);
          h_avg \<leftarrow> np_mean (volumes_of historical_data);
          change \<leftarrow>
            (if h_avg > 0 then do { q \<leftarrow> fdiv (r_avg - h_avg) h_avg; Some (q * 100) }
             else Some 0);
          let st =
            (if \<bar>change\<bar> < 10 then Status_normal
             else if change > 10 then Status_increasing
             else if change < - 10 then Status_decreasing
             else Status_normal);
          Some \<lparr>recent_avg = r_avg, historical_avg = h_avg, change_pct = change,
                status = st, recent_weeks = Some n_recent\<rparr>
        })"

section \<open>Alert engine\<close>

datatype severity = CRITICAL | HIGH | MEDIUM | LOW

datatype alert_type = VOLUME_DROP | NO_DATA

subsection \<open>Numbers as the engine computes them\<close>

text \<open>
  The engine decides by comparing numbers that numpy computed in float64, where one
  rounding can turn a comparison, and its division by the mean has no guard. So the
  engine is modelled over the numbers as computed, and nothing is assumed of the
  rounding:
  \<^item> \<open>calc\<close> stands for \<open>calculate_dynamic_threshold\<close> as numpy executes it
    (\<open>None\<close> where it gives no number); its value on the reals is
    \<open>calculate_dynamic_threshold\<close> above;
  \<^item> \<open>rnd\<close> stands for the rounding of one float64 operation: the computed
    \<open>a - b\<close> is \<open>rnd (a - b)\<close>. The identity gives the arithmetic of the reals;
  \<^item> a float64 result is a finite number, an infinity or nan. A finite number
    divided by zero is an infinity with the sign of the number, or nan when the
    number is zero (the zero divisor here is a mean of integer counts, which is
    never the negative zero); nothing is raised. A comparison with an infinity
    follows the order, a comparison with nan is false.
  Counts are integers below \<open>2^53\<close>, which float64 holds exactly; the pandas mean of
  four such counts is exact as well, so \<open>recent_4wk_avg\<close> needs no rounding.
\<close>

datatype float64 = Finite real | Pos_inf | Neg_inf | Nan

definition float_div :: "(real \<Rightarrow> real) \<Rightarrow> real \<Rightarrow> real \<Rightarrow> float64" where
  \<comment> \<open>\<open>a / b\<close> of two finite numbers\<close>
  "float_div rnd a b =
     (if b = 0 then (if a > 0 then Pos_inf else if a < 0 then Neg_inf else Nan)
      else Finite (rnd (a / b)))"

definition float_mul :: "(real \<Rightarrow> real) \<Rightarrow> float64 \<Rightarrow> real \<Rightarrow> float64" where
  \<comment> \<open>\<open>x * c\<close> for a finite constant \<open>c\<close>\<close>
  "float_mul rnd x c =
     (case x of
        Finite a \<Rightarrow> Finite (rnd (a * c))
      | Pos_inf \<Rightarrow> (if c > 0 then Pos_inf else if c < 0 then Neg_inf else Nan)
      | Neg_inf \<Rightarrow> (if c > 0 then Neg_inf else if c < 0 then Pos_inf else Nan)
      | Nan \<Rightarrow> Nan)"

datatype message =
    No_data_received
    \<comment> \<open>'No data received this week - possible system failure'\<close>
  | Volume_dropped float64
    \<comment> \<open>'Volume dropped \{drop\_pct:.1f\}\% below historical mean', kept as its number\<close>

record alert =
  alert_app :: string
  alert_message_type :: string
  alert_week_start_date :: int
  current_volume :: int
  alert_threshold :: real
  alert_mean_volume :: real
  recent_4wk_avg :: "real option"
  drop_from_mean_pct :: float64
  alert_severity :: severity
  alert_kind :: alert_type
  alert_message :: message

subsection \<open>weekly\_monitoring.py: detect\_weekly\_alerts\<close>

definition severity_of :: "real \<Rightarrow> severity" where
  \<comment> \<open>the \<open>if\<close>/\<open>elif\<close> chain under "Determine severity", on a finite drop\<close>
  "severity_of drop_pct =
     (if drop_pct \<ge> 70 then CRITICAL
      else if drop_pct \<ge> 50 then HIGH
      else if drop_pct \<ge> 30 then MEDIUM
      else LOW)"

definition severity_of_float :: "float64 \<Rightarrow> severity" where
  \<comment> \<open>the same chain on any float64: \<open>inf >= 70\<close> holds, every test on \<open>-inf\<close> and
      on nan fails\<close>
  "severity_of_float drop_pct =
     (case drop_pct of
        Finite d \<Rightarrow> severity_of d
      | Pos_inf \<Rightarrow> CRITICAL
      | Neg_inf \<Rightarrow> LOW
      | Nan \<Rightarrow> LOW)"

definition group_alerts ::
  "(real list \<Rightarrow> sensitivity \<Rightarrow> threshold_info option) \<Rightarrow> (real \<Rightarrow> real)
    \<Rightarrow> sensitivity \<Rightarrow> int \<Rightarrow> row list \<Rightarrow> string \<times> string \<Rightarrow> row list
    \<Rightarrow> alert list option" where
  \<comment> \<open>one pass of the loop over the groups: the alerts it appends. The NO\_DATA
      dictionary has no \<open>recent_4wk_avg\<close> entry.\<close>
  "group_alerts calc rnd sens check_date current_week_data key grp =
     (let config = SENSITIVITY_CONFIGS sens in
      if length grp < min_weeks config then Some []
      else
        (case filter (\<lambda>r. app r = fst key \<and> message_type r = snd key) current_week_data of
           [] \<Rightarrow>
             (let historical_data = filter (\<lambda>r. week_start_date r < check_date) grp in
              if length historical_data \<ge> min_weeks config then do {
                threshold_info \<leftarrow> calc (volumes_of historical_data) sens;
                Some [\<lparr>alert_app = fst key, alert_message_type = snd key,
                       alert_week_start_date = check_date, current_volume = 0,
                       alert_threshold = ti_threshold threshold_info,
                       alert_mean_volume = ti_mean threshold_info,
                       recent_4wk_avg = None, drop_from_mean_pct = Finite 100,
                       alert_severity = CRITICAL, alert_kind = NO_DATA,
                       alert_message = No_data_received\<rparr>]
              }
              else Some [])
         | first_row # _ \<Rightarrow>
             (let current_vol = volume first_row;
                  historical_data = filter (\<lambda>r. week_start_date r < check_date) grp
              in
              if length historical_data < min_weeks config then Some []
              else do {
                threshold_info \<leftarrow> calc (volumes_of historical_data) sens;
                if real_of_int current_vol < ti_threshold threshold_info then do {
                  let drop_pct =
                    float_mul rnd
                      (float_div rnd (rnd (ti_mean threshold_info - real_of_int current_vol))
                         (ti_mean threshold_info))
                      100;
                  recent_4wk \<leftarrow> np_mean (volumes_of (tail 4 historical_data));
                  let sev = severity_of_float drop_pct;
                  Some [\<lparr>alert_app = fst key, alert_message_type = snd key,
                         alert_week_start_date = check_date, current_volume = current_vol,
                         alert_threshold = ti_threshold threshold_info,
                         alert_mean_volume = ti_mean threshold_info,
                         recent_4wk_avg = Some recent_4wk, drop_from_mean_pct = drop_pct,
                         alert_severity = sev, alert_kind = VOLUME_DROP,
                         alert_message = Volume_dropped drop_pct\<rparr>]
                }
                else Some []
              })))"

fun alerts_loop ::
  "(real list \<Rightarrow> sensitivity \<Rightarrow> threshold_info option) \<Rightarrow> (real \<Rightarrow> real)
    \<Rightarrow> sensitivity \<Rightarrow> int \<Rightarrow> row list \<Rightarrow> ((string \<times> string) \<times> row list) list
    \<Rightarrow> alert list \<Rightarrow> alert list option" where
  "alerts_loop calc rnd sens check_date current_week_data [] alerts = Some alerts"
| "alerts_loop calc rnd sens check_date current_week_data ((key, grp) # groups) alerts =
     (case group_alerts calc rnd sens check_date current_week_data key grp of
        None \<Rightarrow> None
      | Some new \<Rightarrow>
          alerts_loop calc rnd sens check_date current_week_data groups (alerts @ new))"

definition detect_weekly_alerts ::
  "(real list \<Rightarrow> sensitivity \<Rightarrow> threshold_info option) \<Rightarrow> (real \<Rightarrow> real)
    \<Rightarrow> row list \<Rightarrow> int \<Rightarrow> sensitivity \<Rightarrow> alert list option" where
  "detect_weekly_alerts calc rnd df check_date sens =
     (let current_week_data = filter (\<lambda>r. week_start_date r = check_date) df in
      if length current_week_data = 0 then Some []
      else alerts_loop calc rnd sens check_date current_week_data (groupby df) [])"

subsection \<open>volume\_analysis.py: the severity of detect\_alerts\<close>

definition severity_v1 :: "real \<Rightarrow> severity" where
  \<comment> \<open>\<open>'HIGH' if drop_pct > 50 else 'MEDIUM' if drop_pct > 30 else 'LOW'\<close>\<close>
  "severity_v1 drop_pct =
     (if drop_pct > 50 then HIGH else if drop_pct > 30 then MEDIUM else LOW)"

section \<open>Properties of the numeric primitives\<close>

lemma np_mean_Some: "xs \<noteq> [] \<Longrightarrow> np_mean xs = Some (sum_list xs / real (length xs))"
  by (simp add: np_mean_def fdiv_def)

lemma np_mean_nonneg:
  assumes "xs \<noteq> []" and "\<And>x. x \<in> set xs \<Longrightarrow> 0 \<le> x"
  shows "\<exists>m. np_mean xs = Some m \<and> 0 \<le> m"
  using assms by (simp add: np_mean_Some sum_list_nonneg)

lemma np_std_Some: "xs \<noteq> [] \<Longrightarrow> \<exists>s. np_std xs = Some s \<and> 0 \<le> s"
proof -
  assume ne: "xs \<noteq> []"
  obtain m where m: "np_mean xs = Some m" using ne by (simp add: np_mean_Some)
  have "\<exists>v. np_mean (map (\<lambda>x. (x - m)\<^sup>2) xs) = Some v \<and> 0 \<le> v"
    using ne by (intro np_mean_nonneg) auto
  then obtain v where v: "np_mean (map (\<lambda>x. (x - m)\<^sup>2) xs) = Some v" "0 \<le> v" by blast
  show ?thesis using m v by (simp add: np_std_def)
qed

lemma sqrt_100: "sqrt 100 = 10"
  using real_sqrt_abs [of 10] by simp

section \<open>Properties of the frequency pattern detector\<close>

lemma gaps_of_length: "length (gaps_of ds) = length ds - 1"
  by (induction ds rule: gaps_of.induct) auto

lemma gaps_of_nonneg: "sorted ds \<Longrightarrow> g \<in> set (gaps_of ds) \<Longrightarrow> 0 \<le> g"
  by (induction ds rule: gaps_of.induct) auto

lemma frequency_by_gap_confidence:
  assumes "0 \<le> r" "r \<le> 1"
  shows "0 \<le> snd (frequency_by_gap g r) \<and> snd (frequency_by_gap g r) \<le> 1
    \<and> snd (frequency_by_gap g r) \<in> {r, r * 0.8, r * 0.7, r * 0.5}"
  using assms by (simp add: frequency_by_gap_def)

text \<open>
  Claim C9. For every list of dates the detector returns a profile, and in it the
  confidence and the regularity score lie between 0 and 1 and the average gap is not
  negative. The confidence is the regularity score scaled by 1, 0.8, 0.7 or 0.5, or
  one minus the regularity score after the irregular override.
\<close>

theorem frequency_profile_ranges:
  "\<exists>f c g r. analyze_occurrence_pattern dates = Some (f, c, g, r)
     \<and> 0 \<le> c \<and> c \<le> 1 \<and> 0 \<le> r \<and> r \<le> 1 \<and> 0 \<le> g
     \<and> (c = r \<or> c = r * 0.8 \<or> c = r * 0.7 \<or> c = r * 0.5 \<or> c = 1 - r)"
proof (cases "length dates < 2")
  case True
  then show ?thesis by (simp add: analyze_occurrence_pattern_def)
next
  case False
  define gaps where "gaps = map real_of_int (gaps_of (sort dates))"
  have ne: "gaps \<noteq> []"
    using False gaps_of_length [of "sort dates"] by (auto simp: gaps_def simp flip: length_0_conv)
  have nonneg: "\<And>x. x \<in> set gaps \<Longrightarrow> 0 \<le> x"
    using gaps_of_nonneg [of "sort dates"] by (auto simp: gaps_def)
  obtain avg where avg: "np_mean gaps = Some avg" "0 \<le> avg"
    using np_mean_nonneg [OF ne nonneg] by blast
  obtain sd where sd: "np_std gaps = Some sd" "0 \<le> sd"
    using np_std_Some [OF ne] by blast
  define cv where "cv = (if avg > 0 then sd / avg else 1)"
  have cv: "(if avg > 0 then fdiv sd avg else Some 1) = Some cv"
    by (simp add: cv_def fdiv_def)
  define r where "r = max 0 (1 - min cv 1)"
  have "0 \<le> cv" using sd(2) by (simp add: cv_def)
  then have r: "0 \<le> r" "r \<le> 1" by (simp_all add: r_def)
  obtain f0 c0 where fc0: "frequency_by_gap avg r = (f0, c0)" by (cases "frequency_by_gap avg r")
  have c0: "0 \<le> c0" "c0 \<le> 1" "c0 = r \<or> c0 = r * 0.8 \<or> c0 = r * 0.7 \<or> c0 = r * 0.5"
    using frequency_by_gap_confidence [OF r, of avg] fc0 by auto
  define f where "f = (if r < 0.3 \<and> length gaps > 3 then Irregular else f0)"
  define c where "c = (if r < 0.3 \<and> length gaps > 3 then 1 - r else c0)"
  have res: "analyze_occurrence_pattern dates = Some (f, c, avg, r)"
    using False ne avg(1) sd(1) cv fc0
    unfolding analyze_occurrence_pattern_def Let_def gaps_def [symmetric]
    by (simp add: r_def f_def c_def)
  have "0 \<le> c \<and> c \<le> 1" using r c0 by (simp add: c_def)
  moreover have "c = r \<or> c = r * 0.8 \<or> c = r * 0.7 \<or> c = r * 0.5 \<or> c = 1 - r"
    using c0(3) by (auto simp: c_def)
  ultimately show ?thesis using res r avg(2) by blast
qed

text \<open>
  Claim C5. A series of exactly one observation is caught by the first guard
  (\<open>len(dates) < 2\<close>): the detector returns insufficient\_data for it, with
  confidence, average gap and regularity 0, as it does for the empty series. The
  single\_occurrence return behind the second guard is never reached.
\<close>

theorem single_observation_is_insufficient_data:
  "analyze_occurrence_pattern [] = Some (Insufficient_data, 0, 0, 0)
   \<and> analyze_occurrence_pattern [d] = Some (Insufficient_data, 0, 0, 0)
   \<and> analyze_occurrence_pattern dates \<noteq> Some (Single_occurrence, c, g, r)"
proof -
  have "analyze_occurrence_pattern dates \<noteq> Some (Single_occurrence, c, g, r)"
  proof (cases "length dates < 2")
    case True
    then show ?thesis by (simp add: analyze_occurrence_pattern_def)
  next
    case False
    then have "gaps_of (sort dates) \<noteq> []"
      using gaps_of_length [of "sort dates"] by (auto simp flip: length_0_conv)
    then show ?thesis
      using False
      by (auto simp: analyze_occurrence_pattern_def Let_def frequency_by_gap_def
          split: bind_splits if_splits prod.splits)
  qed
  then show ?thesis by (simp add: analyze_occurrence_pattern_def)
qed

text \<open>
  Claim C4. On 13 observations spaced 28 days apart every gap is 28, so the average
  gap is 28 and the regularity score 1. The branch taken is the one for average gaps
  above 21 and up to 45 days, which names a regular series biweekly: the detector
  returns biweekly with confidence 1, not monthly.
\<close>

theorem four_weekly_series_is_biweekly:
  "analyze_occurrence_pattern [0, 28, 56, 84, 112, 140, 168, 196, 224, 252, 280, 308, 336]
     = Some (Biweekly, 1, 28, 1)"
  by (simp add: analyze_occurrence_pattern_def np_mean_def np_std_def fdiv_def
      frequency_by_gap_def)

section \<open>Properties of the threshold calculators\<close>

lemma np_percentile_Some:
  "xs \<noteq> [] \<Longrightarrow> q \<le> 100 \<Longrightarrow> \<exists>p. np_percentile xs q = Some p"
  by (simp add: np_percentile_def Let_def)

lemma min_weeks_ge_4: "4 \<le> min_weeks (SENSITIVITY_CONFIGS sens)"
  by (cases sens) (simp_all add: SENSITIVITY_CONFIGS_def)

lemma percentile_le_100: "percentile (SENSITIVITY_CONFIGS sens) \<le> 100"
  by (cases sens) (simp_all add: SENSITIVITY_CONFIGS_def)

lemma levels_eq_configs: "SENSITIVITY_LEVELS sens = SENSITIVITY_CONFIGS sens"
  by (simp add: SENSITIVITY_LEVELS_def SENSITIVITY_CONFIGS_def)

lemma z_score_pos: "0 < z_score (SENSITIVITY_CONFIGS sens)"
  by (cases sens) (simp_all add: SENSITIVITY_CONFIGS_def)

lemma calculate_dynamic_threshold_Some:
  assumes "volumes \<noteq> []"
  shows "\<exists>m s p q1 q3.
           np_mean volumes = Some m \<and> np_std volumes = Some s \<and> 0 \<le> s
         \<and> np_percentile volumes (percentile (SENSITIVITY_CONFIGS sens)) = Some p
         \<and> np_percentile volumes 25 = Some q1 \<and> np_percentile volumes 75 = Some q3
         \<and> calculate_dynamic_threshold volumes sens =
             Some \<lparr>ti_threshold =
                     max (max (max 0 (m - z_score (SENSITIVITY_CONFIGS sens) * s)) p)
                       (max 0 (q1 - 1.5 * (q3 - q1))),
                   ti_mean = m, ti_std = s,
                   ti_z_score = max 0 (m - z_score (SENSITIVITY_CONFIGS sens) * s),
                   ti_percentile = p, ti_iqr = max 0 (q1 - 1.5 * (q3 - q1))\<rparr>"
proof -
  obtain m where m: "np_mean volumes = Some m" using assms by (simp add: np_mean_Some)
  obtain s where s: "np_std volumes = Some s" "0 \<le> s" using np_std_Some [OF assms] by blast
  obtain p where p: "np_percentile volumes (percentile (SENSITIVITY_CONFIGS sens)) = Some p"
    using np_percentile_Some [OF assms percentile_le_100] by blast
  obtain q1 where q1: "np_percentile volumes 25 = Some q1"
    using np_percentile_Some [OF assms, of 25] by auto
  obtain q3 where q3: "np_percentile volumes 75 = Some q3"
    using np_percentile_Some [OF assms, of 75] by auto
  show ?thesis using m s p q1 q3 by (simp add: calculate_dynamic_threshold_def Let_def)
qed

lemma calculate_dynamic_threshold_total:
  "v \<noteq> [] \<Longrightarrow> \<exists>t. calculate_dynamic_threshold v sens = Some t"
  using calculate_dynamic_threshold_Some [of v sens] by blast

lemma pattern_aware_threshold_Some:
  assumes "volumes \<noteq> []"
  shows "\<exists>m s p q1 q3.
           np_mean volumes = Some m \<and> np_std volumes = Some s \<and> 0 \<le> s
         \<and> np_percentile volumes (percentile (SENSITIVITY_LEVELS sens)) = Some p
         \<and> np_percentile volumes 25 = Some q1 \<and> np_percentile volumes 75 = Some q3
         \<and> (\<forall>r. pattern_aware_threshold sens r volumes =
             Some \<lparr>tr_regularity_score = r, tr_mean_volume = m, tr_std_volume = s,
                   tr_threshold =
                     max (max (max 0 (m - z_score (SENSITIVITY_LEVELS sens) * (1 + (1 - r) * 0.5) * s)) p)
                       (max 0 (q1 - 1.5 * (q3 - q1))),
                   tr_adjusted_z_score = z_score (SENSITIVITY_LEVELS sens) * (1 + (1 - r) * 0.5),
                   tr_z_threshold =
                     max 0 (m - z_score (SENSITIVITY_LEVELS sens) * (1 + (1 - r) * 0.5) * s),
                   tr_percentile_threshold = p,
                   tr_iqr_threshold = max 0 (q1 - 1.5 * (q3 - q1))\<rparr>)"
proof -
  obtain m where m: "np_mean volumes = Some m" using assms by (simp add: np_mean_Some)
  obtain s where s: "np_std volumes = Some s" "0 \<le> s" using np_std_Some [OF assms] by blast
  obtain p where p: "np_percentile volumes (percentile (SENSITIVITY_LEVELS sens)) = Some p"
    using np_percentile_Some [OF assms percentile_le_100] by (auto simp: levels_eq_configs)
  obtain q1 where q1: "np_percentile volumes 25 = Some q1"
    using np_percentile_Some [OF assms, of 25] by auto
  obtain q3 where q3: "np_percentile volumes 75 = Some q3"
    using np_percentile_Some [OF assms, of 75] by auto
  show ?thesis using m s p q1 q3 by (simp add: pattern_aware_threshold_def Let_def)
qed

text \<open>
  Claim C3. For every sample that reaches the sensitivity's minimum size, the
  threshold record of \<open>calculate_dynamic_threshold\<close> and the row of the
  pattern-aware calculator (for any regularity score) are computed from the sample:
  the mean is the sum over the size, the standard deviation the root of the mean
  squared deviation, the z-score threshold \<open>max 0 (mean - z * std)\<close> (with the
  adjusted z in the pattern-aware row), the percentile threshold the configured
  percentile of the sample, the IQR threshold \<open>max 0 (q1 - 1.5 * (q3 - q1))\<close> of
  its quartiles. The final threshold is the maximum of the three and is not negative.
\<close>

theorem final_threshold_is_max:
  assumes "min_weeks (SENSITIVITY_CONFIGS sens) \<le> length volumes"
  shows "(\<exists>t m s p q1 q3.
            np_mean volumes = Some m \<and> m = sum_list volumes / real (length volumes)
          \<and> np_std volumes = Some s
          \<and> s = sqrt (sum_list (map (\<lambda>x. (x - m)\<^sup>2) volumes) / real (length volumes))
          \<and> np_percentile volumes (percentile (SENSITIVITY_CONFIGS sens)) = Some p
          \<and> np_percentile volumes 25 = Some q1 \<and> np_percentile volumes 75 = Some q3
          \<and> calculate_dynamic_threshold volumes sens = Some t
          \<and> ti_mean t = m \<and> ti_std t = s
          \<and> ti_z_score t = max 0 (m - z_score (SENSITIVITY_CONFIGS sens) * s)
          \<and> ti_percentile t = p
          \<and> ti_iqr t = max 0 (q1 - 1.5 * (q3 - q1))
          \<and> ti_threshold t = max (max (ti_z_score t) (ti_percentile t)) (ti_iqr t)
          \<and> 0 \<le> ti_threshold t)
       \<and> (\<exists>t m s p q1 q3.
            np_mean volumes = Some m \<and> m = sum_list volumes / real (length volumes)
          \<and> np_std volumes = Some s
          \<and> s = sqrt (sum_list (map (\<lambda>x. (x - m)\<^sup>2) volumes) / real (length volumes))
          \<and> np_percentile volumes (percentile (SENSITIVITY_LEVELS sens)) = Some p
          \<and> np_percentile volumes 25 = Some q1 \<and> np_percentile volumes 75 = Some q3
          \<and> pattern_aware_threshold sens regularity volumes = Some t
          \<and> tr_mean_volume t = m \<and> tr_std_volume t = s
          \<and> tr_adjusted_z_score t = z_score (SENSITIVITY_LEVELS sens) * (1 + (1 - regularity) * 0.5)
          \<and> tr_z_threshold t = max 0 (m - tr_adjusted_z_score t * s)
          \<and> tr_percentile_threshold t = p
          \<and> tr_iqr_threshold t = max 0 (q1 - 1.5 * (q3 - q1))
          \<and> tr_threshold t
              = max (max (tr_z_threshold t) (tr_percentile_threshold t)) (tr_iqr_threshold t)
          \<and> 0 \<le> tr_threshold t)"
proof -
  have ne: "volumes \<noteq> []" using assms min_weeks_ge_4 [of sens] by auto
  have m: "np_mean volumes = Some (sum_list volumes / real (length volumes))"
    using ne by (rule np_mean_Some)
  have sq: "map (\<lambda>x. (x - sum_list volumes / real (length volumes))\<^sup>2) volumes \<noteq> []"
    using ne by simp
  have s: "np_std volumes
             = Some (sqrt (sum_list (map (\<lambda>x. (x - sum_list volumes / real (length volumes))\<^sup>2)
                 volumes) / real (length volumes)))"
    using m np_mean_Some [OF sq] by (simp add: np_std_def)
  have a: "\<exists>t m s p q1 q3.
            np_mean volumes = Some m \<and> m = sum_list volumes / real (length volumes)
          \<and> np_std volumes = Some s
          \<and> s = sqrt (sum_list (map (\<lambda>x. (x - m)\<^sup>2) volumes) / real (length volumes))
          \<and> np_percentile volumes (percentile (SENSITIVITY_CONFIGS sens)) = Some p
          \<and> np_percentile volumes 25 = Some q1 \<and> np_percentile volumes 75 = Some q3
          \<and> calculate_dynamic_threshold volumes sens = Some t
          \<and> ti_mean t = m \<and> ti_std t = s
          \<and> ti_z_score t = max 0 (m - z_score (SENSITIVITY_CONFIGS sens) * s)
          \<and> ti_percentile t = p
          \<and> ti_iqr t = max 0 (q1 - 1.5 * (q3 - q1))
          \<and> ti_threshold t = max (max (ti_z_score t) (ti_percentile t)) (ti_iqr t)
          \<and> 0 \<le> ti_threshold t"
    using calculate_dynamic_threshold_Some [OF ne, of sens] m s by auto
  have b: "\<exists>t m s p q1 q3.
            np_mean volumes = Some m \<and> m = sum_list volumes / real (length volumes)
          \<and> np_std volumes = Some s
          \<and> s = sqrt (sum_list (map (\<lambda>x. (x - m)\<^sup>2) volumes) / real (length volumes))
          \<and> np_percentile volumes (percentile (SENSITIVITY_LEVELS sens)) = Some p
          \<and> np_percentile volumes 25 = Some q1 \<and> np_percentile volumes 75 = Some q3
          \<and> pattern_aware_threshold sens regularity volumes = Some t
          \<and> tr_mean_volume t = m \<and> tr_std_volume t = s
          \<and> tr_adjusted_z_score t = z_score (SENSITIVITY_LEVELS sens) * (1 + (1 - regularity) * 0.5)
          \<and> tr_z_threshold t = max 0 (m - tr_adjusted_z_score t * s)
          \<and> tr_percentile_threshold t = p
          \<and> tr_iqr_threshold t = max 0 (q1 - 1.5 * (q3 - q1))
          \<and> tr_threshold t
              = max (max (tr_z_threshold t) (tr_percentile_threshold t)) (tr_iqr_threshold t)
          \<and> 0 \<le> tr_threshold t"
    using pattern_aware_threshold_Some [OF ne, of sens] m s by auto
  show ?thesis using a b by blast
qed

text \<open>
  The sample 1020, 990, 990, 1000, 1000, 1000 at medium sensitivity: mean 1000,
  standard deviation 10, z-score threshold 980, 5th percentile 990, IQR threshold
  981.25, final threshold 990.
\<close>

theorem final_threshold_is_max_witness:
  "min_weeks (SENSITIVITY_CONFIGS Sens_medium)
     \<le> length [1020, 990, 990, 1000, 1000, 1000 :: real]
   \<and> calculate_dynamic_threshold [1020, 990, 990, 1000, 1000, 1000] Sens_medium
       = Some \<lparr>ti_threshold = 990, ti_mean = 1000, ti_std = 10, ti_z_score = 980,
               ti_percentile = 990, ti_iqr = 981.25\<rparr>
   \<and> pattern_aware_threshold Sens_medium 0.5 [1020, 990, 990, 1000, 1000, 1000]
       = Some \<lparr>tr_regularity_score = 0.5, tr_mean_volume = 1000, tr_std_volume = 10,
               tr_threshold = 990, tr_adjusted_z_score = 2.5, tr_z_threshold = 975,
               tr_percentile_threshold = 990, tr_iqr_threshold = 981.25\<rparr>"
proof -
  let ?v = "[1020, 990, 990, 1000, 1000, 1000 :: real]"
  have h: "min_weeks (SENSITIVITY_CONFIGS Sens_medium) \<le> length ?v"
    by (simp add: SENSITIVITY_CONFIGS_def)
  have m: "np_mean ?v = Some 1000" by (simp add: np_mean_def fdiv_def)
  have s: "np_std ?v = Some 10" by (simp add: np_std_def np_mean_def fdiv_def sqrt_100)
  have p: "np_percentile ?v (percentile (SENSITIVITY_CONFIGS Sens_medium)) = Some 990"
    by (simp add: np_percentile_def SENSITIVITY_CONFIGS_def)
  have p': "np_percentile ?v (percentile (SENSITIVITY_LEVELS Sens_medium)) = Some 990"
    by (simp add: np_percentile_def SENSITIVITY_LEVELS_def)
  have q1: "np_percentile ?v 25 = Some 992.5" by (simp add: np_percentile_def)
  have q3: "np_percentile ?v 75 = Some 1000" by (simp add: np_percentile_def)
  have z: "z_score (SENSITIVITY_CONFIGS Sens_medium) = 2" "z_score (SENSITIVITY_LEVELS Sens_medium) = 2"
    by (simp_all add: SENSITIVITY_CONFIGS_def SENSITIVITY_LEVELS_def)
  note both = final_threshold_is_max [OF h, of "0.5"]
  obtain t m' s' p0 a1 a3 where
    "np_mean ?v = Some m'" "np_std ?v = Some s'"
    "np_percentile ?v (percentile (SENSITIVITY_CONFIGS Sens_medium)) = Some p0"
    "np_percentile ?v 25 = Some a1" "np_percentile ?v 75 = Some a3"
    and t1: "calculate_dynamic_threshold ?v Sens_medium = Some t"
    and tf: "ti_mean t = m'" "ti_std t = s'"
      "ti_z_score t = max 0 (m' - z_score (SENSITIVITY_CONFIGS Sens_medium) * s')"
      "ti_percentile t = p0" "ti_iqr t = max 0 (a1 - 1.5 * (a3 - a1))"
      "ti_threshold t = max (max (ti_z_score t) (ti_percentile t)) (ti_iqr t)"
    using both [THEN conjunct1] by blast
  then have v1: "m' = 1000" "s' = 10" "p0 = 990" "a1 = 992.5" "a3 = 1000"
    using m s p q1 q3 by simp_all
  have t: "calculate_dynamic_threshold ?v Sens_medium = Some t"
    "ti_mean t = 1000" "ti_std t = 10" "ti_z_score t = 980" "ti_percentile t = 990"
    "ti_iqr t = 981.25" "ti_threshold t = 990"
    using t1 tf v1 z by simp_all
  obtain r m'' s'' p1 b1 b3 where
    "np_mean ?v = Some m''" "np_std ?v = Some s''"
    "np_percentile ?v (percentile (SENSITIVITY_LEVELS Sens_medium)) = Some p1"
    "np_percentile ?v 25 = Some b1" "np_percentile ?v 75 = Some b3"
    and r1: "pattern_aware_threshold Sens_medium 0.5 ?v = Some r"
    and rf: "tr_mean_volume r = m''" "tr_std_volume r = s''"
      "tr_adjusted_z_score r = z_score (SENSITIVITY_LEVELS Sens_medium) * (1 + (1 - 0.5) * 0.5)"
      "tr_z_threshold r = max 0 (m'' - tr_adjusted_z_score r * s'')"
      "tr_percentile_threshold r = p1" "tr_iqr_threshold r = max 0 (b1 - 1.5 * (b3 - b1))"
      "tr_threshold r
        = max (max (tr_z_threshold r) (tr_percentile_threshold r)) (tr_iqr_threshold r)"
    using both [THEN conjunct2] by blast
  then have v2: "m'' = 1000" "s'' = 10" "p1 = 990" "b1 = 992.5" "b3 = 1000"
    using m s p' q1 q3 by simp_all
  have adj: "tr_adjusted_z_score r = 2.5" using rf(3) z by simp
  have r: "pattern_aware_threshold Sens_medium 0.5 ?v = Some r"
    "tr_mean_volume r = 1000" "tr_std_volume r = 10" "tr_adjusted_z_score r = 2.5"
    "tr_z_threshold r = 975" "tr_percentile_threshold r = 990" "tr_iqr_threshold r = 981.25"
    "tr_threshold r = 990"
    using r1 rf(1,2,4-) v2 adj by simp_all
  have r0: "tr_regularity_score r = 0.5"
    using r(1) by (auto simp: pattern_aware_threshold_def Let_def split: bind_splits)
  have "t = \<lparr>ti_threshold = 990, ti_mean = 1000, ti_std = 10, ti_z_score = 980,
               ti_percentile = 990, ti_iqr = 981.25\<rparr>"
    using t by (cases t) simp
  moreover have "r = \<lparr>tr_regularity_score = 0.5, tr_mean_volume = 1000, tr_std_volume = 10,
               tr_threshold = 990, tr_adjusted_z_score = 2.5, tr_z_threshold = 975,
               tr_percentile_threshold = 990, tr_iqr_threshold = 981.25\<rparr>"
    using r r0 by (cases r) simp
  ultimately show ?thesis using h t(1) r(1) by simp
qed

text \<open>
  Claim C7. For a fixed sample and sensitivity and two regularity scores
  \<open>r1 \<le> r2\<close>, the pattern-aware calculator's adjusted z-score is
  \<open>z_score * (1 + (1 - r) * 0.5)\<close> and its z-score threshold is
  \<open>max 0 (mean - adjusted_z * std)\<close>; the adjusted z-score at \<open>r1\<close> is at least the
  one at \<open>r2\<close>, and the z-score threshold at \<open>r1\<close> is at most the one at \<open>r2\<close>.
\<close>

theorem regularity_monotone:
  assumes "min_weeks (SENSITIVITY_LEVELS sens) \<le> length volumes" and "r1 \<le> r2"
  shows "\<exists>t1 t2 m s.
           pattern_aware_threshold sens r1 volumes = Some t1
         \<and> pattern_aware_threshold sens r2 volumes = Some t2
         \<and> np_mean volumes = Some m \<and> np_std volumes = Some s
         \<and> tr_adjusted_z_score t1 = z_score (SENSITIVITY_LEVELS sens) * (1 + (1 - r1) * 0.5)
         \<and> tr_adjusted_z_score t2 = z_score (SENSITIVITY_LEVELS sens) * (1 + (1 - r2) * 0.5)
         \<and> tr_z_threshold t1 = max 0 (m - tr_adjusted_z_score t1 * s)
         \<and> tr_z_threshold t2 = max 0 (m - tr_adjusted_z_score t2 * s)
         \<and> tr_adjusted_z_score t2 \<le> tr_adjusted_z_score t1
         \<and> tr_z_threshold t1 \<le> tr_z_threshold t2"
proof -
  let ?z = "z_score (SENSITIVITY_LEVELS sens)"
  have ne: "volumes \<noteq> []"
    using assms(1) min_weeks_ge_4 [of sens] by (auto simp: levels_eq_configs)
  obtain m s p q1 q3 where ms: "np_mean volumes = Some m" "np_std volumes = Some s" "0 \<le> s"
    and row: "\<And>r. pattern_aware_threshold sens r volumes =
             Some \<lparr>tr_regularity_score = r, tr_mean_volume = m, tr_std_volume = s,
                   tr_threshold =
                     max (max (max 0 (m - ?z * (1 + (1 - r) * 0.5) * s)) p)
                       (max 0 (q1 - 1.5 * (q3 - q1))),
                   tr_adjusted_z_score = ?z * (1 + (1 - r) * 0.5),
                   tr_z_threshold = max 0 (m - ?z * (1 + (1 - r) * 0.5) * s),
                   tr_percentile_threshold = p,
                   tr_iqr_threshold = max 0 (q1 - 1.5 * (q3 - q1))\<rparr>"
    using pattern_aware_threshold_Some [OF ne, of sens] by blast
  have zpos: "0 \<le> ?z" using z_score_pos [of sens] by (simp add: levels_eq_configs)
  have adj: "?z * (1 + (1 - r2) * 0.5) \<le> ?z * (1 + (1 - r1) * 0.5)"
    using assms(2) zpos by (intro mult_left_mono) auto
  have "?z * (1 + (1 - r2) * 0.5) * s \<le> ?z * (1 + (1 - r1) * 0.5) * s"
    using adj ms(3) by (rule mult_right_mono)
  then have thr: "max 0 (m - ?z * (1 + (1 - r1) * 0.5) * s)
       \<le> max 0 (m - ?z * (1 + (1 - r2) * 0.5) * s)"
    by auto
  show ?thesis
    using ms(1,2) adj thr by (simp add: row)
qed

theorem regularity_monotone_witness:
  "min_weeks (SENSITIVITY_LEVELS Sens_medium) \<le> length [1000, 1000, 1000, 1000, 1000, 1000 :: real]
   \<and> (0.2 :: real) \<le> 0.9
   \<and> (\<exists>t1 t2.
         pattern_aware_threshold Sens_medium 0.2 [1000, 1000, 1000, 1000, 1000, 1000] = Some t1
       \<and> pattern_aware_threshold Sens_medium 0.9 [1000, 1000, 1000, 1000, 1000, 1000] = Some t2
       \<and> tr_adjusted_z_score t2 \<le> tr_adjusted_z_score t1
       \<and> tr_z_threshold t1 \<le> tr_z_threshold t2)"
proof -
  have h1: "min_weeks (SENSITIVITY_LEVELS Sens_medium) \<le> length [1000, 1000, 1000, 1000, 1000, 1000 :: real]"
    by (simp add: SENSITIVITY_LEVELS_def)
  have h2: "(0.2 :: real) \<le> 0.9" by simp
  show ?thesis using h1 h2 regularity_monotone [OF h1 h2] by blast
qed

lemma calculate_thresholds_Some:
  assumes "volumes \<noteq> []"
  shows "\<exists>t. calculate_thresholds volumes sens = Some t
           \<and> np_mean volumes = Some (th_mean t) \<and> np_std volumes = Some (th_std t)
           \<and> th_cv t = (if th_mean t > 0 then th_std t / th_mean t else 0)"
proof -
  obtain m where m: "np_mean volumes = Some m" using assms by (simp add: np_mean_Some)
  obtain s where s: "np_std volumes = Some s" using np_std_Some [OF assms] by blast
  obtain p where p: "np_percentile volumes (percentile (SENSITIVITY_LEVELS sens)) = Some p"
    using np_percentile_Some [OF assms percentile_le_100] by (auto simp: levels_eq_configs)
  obtain q1 where q1: "np_percentile volumes 25 = Some q1"
    using np_percentile_Some [OF assms, of 25] by auto
  obtain q3 where q3: "np_percentile volumes 75 = Some q3"
    using np_percentile_Some [OF assms, of 75] by auto
  have cv: "(if m > 0 then fdiv s m else Some 0) = Some (if m > 0 then s / m else 0)"
    by (simp add: fdiv_def)
  show ?thesis using m s p q1 q3 by (simp add: calculate_thresholds_def Let_def cv)
qed

section \<open>Properties of the severity classifiers\<close>

text \<open>
  Claim C10. The severity of \<open>detect_alerts\<close> (volume\_analysis.py) and the severity
  of \<open>detect_weekly_alerts\<close> (weekly\_monitoring.py) are different functions of the
  drop percentage: every drop of 70 or more is HIGH for the first and CRITICAL for the
  second, a drop of exactly 50 is MEDIUM against HIGH, and a drop of exactly 30 is LOW
  against MEDIUM.
\<close>

theorem severity_classifiers_differ:
  "severity_v1 \<noteq> severity_of
   \<and> (70 \<le> d \<longrightarrow> severity_v1 d = HIGH \<and> severity_of d = CRITICAL)
   \<and> severity_v1 50 = MEDIUM \<and> severity_of 50 = HIGH
   \<and> severity_v1 30 = LOW \<and> severity_of 30 = MEDIUM"
proof -
  have "severity_v1 50 \<noteq> severity_of 50" by (simp add: severity_v1_def severity_of_def)
  then have "severity_v1 \<noteq> severity_of" by metis
  then show ?thesis by (simp add: severity_v1_def severity_of_def)
qed

theorem severity_classifiers_differ_witness:
  "(70 :: real) \<le> 85 \<and> severity_v1 85 = HIGH \<and> severity_of 85 = CRITICAL
   \<and> severity_v1 85 \<noteq> severity_of 85"
  using severity_classifiers_differ [of 85] by simp

section \<open>Properties of the trend analyzer\<close>

lemma guarded_ratio:
  "(if d > 0 then do { q \<leftarrow> fdiv a d; Some (q * 100) } else Some 0)
     = Some (if d > 0 then a / d * 100 else 0)"
  by (simp add: fdiv_def)

lemma linregress_slope_Some:
  assumes "2 \<le> n" and "length y = n"
  shows "\<exists>sl. linregress_slope (map real [0..<n]) y = Some sl"
proof -
  let ?x = "map real [0..<n]"
  have xne: "?x \<noteq> []" and yne: "y \<noteq> []" using assms by auto
  obtain xm where xm: "np_mean ?x = Some xm" using xne by (simp add: np_mean_Some del: map_is_Nil_conv)
  obtain ym where ym: "np_mean y = Some ym" using yne by (simp add: np_mean_Some)
  let ?sq = "map (\<lambda>a. (a - xm)\<^sup>2) ?x"
  have sqne: "?sq \<noteq> []" using xne by simp
  have ssxm: "np_mean ?sq = Some (sum_list ?sq / real (length ?sq))"
    using sqne by (rule np_mean_Some)
  have "sum_list ?sq \<noteq> 0"
  proof
    assume z: "sum_list ?sq = 0"
    have nn: "\<And>v. v \<in> set ?sq \<Longrightarrow> 0 \<le> v" by auto
    have all0: "\<And>v. v \<in> set ?sq \<Longrightarrow> v = 0"
      using z nn sum_list_nonneg_eq_0_iff [of ?sq] by blast
    have "0 \<in> set [0..<n]" and "1 \<in> set [0..<n]" using assms(1) by auto
    then have "(real 0 - xm)\<^sup>2 \<in> set ?sq" and "(real 1 - xm)\<^sup>2 \<in> set ?sq"
      unfolding set_map by blast+
    then have "(real 0 - xm)\<^sup>2 = 0" and "(real 1 - xm)\<^sup>2 = 0" using all0 by blast+
    then show False by simp
  qed
  then have nz: "sum_list ?sq / real (length ?sq) \<noteq> 0" using assms(1) by simp
  let ?cov = "map (\<lambda>(a, b). (a - xm) * (b - ym)) (zip ?x y)"
  have "?cov \<noteq> []" using xne yne by (cases y) (auto simp: upt_conv_Cons)
  then obtain c where c: "np_mean ?cov = Some c" by (simp add: np_mean_Some)
  show ?thesis
    unfolding linregress_slope_def using xm ym ssxm c nz by (simp add: fdiv_def)
qed

lemma np_median_Some: "xs \<noteq> [] \<Longrightarrow> \<exists>m. np_median xs = Some m"
  by (simp add: np_median_def Let_def)

lemma half_avgs_Some:
  assumes "2 \<le> length volumes"
  shows "\<exists>f s. first_half_avg volumes = Some f \<and> second_half_avg volumes = Some s"
proof (cases "4 \<le> length volumes")
  case True
  then have "take (length volumes div 2) volumes \<noteq> []"
    and "drop (length volumes div 2) volumes \<noteq> []" by auto
  then show ?thesis
    using True by (simp add: first_half_avg_def second_half_avg_def np_mean_Some)
next
  case False
  then show ?thesis by (simp add: first_half_avg_def second_half_avg_def)
qed

lemma calculate_trend_metrics_Some:
  "\<exists>m. calculate_trend_metrics volumes dates = Some m
     \<and> (np_mean volumes = Some 0 \<longrightarrow> volatility m = 0)
     \<and> (2 \<le> length volumes \<and> first_half_avg volumes = Some 0 \<longrightarrow> growth_rate_pct m = 0)"
proof (cases "volumes = []")
  case True
  then show ?thesis by (simp add: calculate_trend_metrics_def np_mean_def)
next
  case ne: False
  obtain avg where avg: "np_mean volumes = Some avg" using ne by (simp add: np_mean_Some)
  obtain sd where sd: "np_std volumes = Some sd" using np_std_Some [OF ne] by blast
  define vol where "vol = (if avg > 0 then sd / avg else 0)"
  have vol: "(if avg > 0 then do { s \<leftarrow> np_std volumes; fdiv s avg } else Some 0) = Some vol"
    using sd by (simp add: vol_def fdiv_def)
  obtain med where med: "np_median volumes = Some med" using np_median_Some [OF ne] by blast
  show ?thesis
  proof (cases "2 \<le> length volumes")
    case False
    then show ?thesis
      using ne avg vol med
      by (simp add: calculate_trend_metrics_def vol_def)
  next
    case True
    obtain sl where sl: "linregress_slope (map real [0..<length volumes]) volumes = Some sl"
      using linregress_slope_Some [OF True refl] by blast
    obtain f s where fs: "first_half_avg volumes = Some f" "second_half_avg volumes = Some s"
      using half_avgs_Some [OF True] by blast
    show ?thesis
      using ne True avg vol med sl fs
      by (simp add: calculate_trend_metrics_def guarded_ratio vol_def)
  qed
qed

lemma compare_recent_to_historical_Some:
  assumes "0 < n_recent"
  shows "\<exists>c. compare_recent_to_historical group_df n_recent = Some c
           \<and> change_pct c
               = (if historical_avg c > 0
                  then (recent_avg c - historical_avg c) / historical_avg c * 100 else 0)"
proof (cases "length group_df < n_recent + 4")
  case True
  then show ?thesis by (simp add: compare_recent_to_historical_def)
next
  case False
  let ?s = "sort_key week_start_date group_df"
  have len: "length ?s = length group_df" by simp
  have "0 < length (tail n_recent ?s)" using False assms by (simp add: tail_def)
  then have "tail n_recent ?s \<noteq> []"
    unfolding length_greater_0_conv .
  then have "volumes_of (tail n_recent ?s) \<noteq> []" by (simp add: volumes_of_def)
  then obtain r where r: "np_mean (volumes_of (tail n_recent ?s)) = Some r"
    using np_mean_Some by blast
  have "0 < length (take (length ?s - n_recent) ?s)" using False by simp
  then have "take (length ?s - n_recent) ?s \<noteq> []"
    unfolding length_greater_0_conv .
  then have "volumes_of (take (length ?s - n_recent) ?s) \<noteq> []"
    by (simp add: volumes_of_def del: length_sort)
  then obtain h where h: "np_mean (volumes_of (take (length ?s - n_recent) ?s)) = Some h"
    using np_mean_Some by blast
  show ?thesis
    using False assms r h
    by (simp add: compare_recent_to_historical_def Let_def guarded_ratio del: length_sort)
qed

text \<open>
  Claim C6. On the two-point window 100, 105 the growth rate is exactly 5 percent:
  it is positive and outside the stable band \<open>\<bar>growth_rate\<bar> < 5\<close>, and the test
  \<open>growth_rate > 5\<close> fails, so the direction returned is decreasing.
\<close>

theorem growth_of_exactly_five_is_decreasing:
  "\<exists>m. calculate_trend_metrics [100, 105] [0, 7] = Some m
     \<and> growth_rate_pct m = 5 \<and> trend_direction m = Decreasing"
  by (simp add: calculate_trend_metrics_def np_mean_def np_std_def fdiv_def
      linregress_slope_def first_half_avg_def second_half_avg_def np_median_def)

text \<open>
  Claim C8. The guarded ratios never leave the reals. \<open>calculate_trend_metrics\<close>
  returns a result for every sample, with volatility 0 when the average is 0 and growth
  rate 0 when the first-half average is 0; \<open>compare_recent_to_historical\<close> (for a
  positive number of recent weeks) returns a result for every data frame, with change 0
  when the historical average is 0; \<open>calculate_thresholds\<close> returns a result for every
  non-empty sample, with coefficient of variation 0 when the mean is 0.
\<close>

theorem zero_denominators_give_zero:
  "(\<exists>m. calculate_trend_metrics volumes dates = Some m
        \<and> (np_mean volumes = Some 0 \<longrightarrow> volatility m = 0)
        \<and> (2 \<le> length volumes \<and> first_half_avg volumes = Some 0 \<longrightarrow> growth_rate_pct m = 0))
   \<and> (0 < n_recent \<longrightarrow>
        (\<exists>c. compare_recent_to_historical group_df n_recent = Some c
           \<and> (historical_avg c = 0 \<longrightarrow> change_pct c = 0)))
   \<and> (sample \<noteq> [] \<longrightarrow>
        (\<exists>t. calculate_thresholds sample sens = Some t
           \<and> np_mean sample = Some (th_mean t)
           \<and> (th_mean t = 0 \<longrightarrow> th_cv t = 0)))"
proof -
  have a: "0 < n_recent \<longrightarrow>
        (\<exists>c. compare_recent_to_historical group_df n_recent = Some c
           \<and> (historical_avg c = 0 \<longrightarrow> change_pct c = 0))"
    using compare_recent_to_historical_Some [of n_recent group_df] by auto
  have b: "sample \<noteq> [] \<longrightarrow>
        (\<exists>t. calculate_thresholds sample sens = Some t
           \<and> np_mean sample = Some (th_mean t)
           \<and> (th_mean t = 0 \<longrightarrow> th_cv t = 0))"
    using calculate_thresholds_Some [of sample sens] by auto
  show ?thesis using calculate_trend_metrics_Some [of volumes dates] a b by blast
qed

theorem zero_denominators_give_zero_witness:
  "np_mean [0, 0, 0, 0] = Some 0
   \<and> (2 :: nat) \<le> length [0, 0, 0, 0 :: real] \<and> first_half_avg [0, 0, 0, 0] = Some 0
   \<and> (\<exists>m. calculate_trend_metrics [0, 0, 0, 0] [0, 7, 14, 21] = Some m
         \<and> volatility m = 0 \<and> growth_rate_pct m = 0)
   \<and> (\<exists>c. compare_recent_to_historical
             (map (\<lambda>d. \<lparr>app = ''APP_01'', message_type = ''MT103'', week_start_date = d,
                        volume = 0\<rparr>) [0, 7, 14, 21, 28, 35, 42, 49]) 4 = Some c
         \<and> historical_avg c = 0 \<and> change_pct c = 0)
   \<and> (\<exists>t. calculate_thresholds [0, 0, 0, 0, 0, 0] Sens_medium = Some t
         \<and> th_mean t = 0 \<and> th_cv t = 0)"
proof -
  let ?rows = "map (\<lambda>d. \<lparr>app = ''APP_01'', message_type = ''MT103'', week_start_date = d,
                        volume = 0\<rparr>) [0, 7, 14, 21, 28, 35, 42, 49 :: int]"
  have m0: "np_mean [0, 0, 0, 0] = Some 0" by (simp add: np_mean_def fdiv_def)
  have f0: "first_half_avg [0, 0, 0, 0] = Some 0"
    by (simp add: first_half_avg_def np_mean_def fdiv_def)
  have s0: "np_mean [0, 0, 0, 0, 0, 0] = Some 0" by (simp add: np_mean_def fdiv_def)
  note inst = zero_denominators_give_zero
    [of "[0, 0, 0, 0]" "[0, 7, 14, 21]" 4 ?rows "[0, 0, 0, 0, 0, 0]" Sens_medium]
  have h0: "\<And>c. compare_recent_to_historical ?rows 4 = Some c \<Longrightarrow> historical_avg c = 0"
    by (auto simp: compare_recent_to_historical_def tail_def volumes_of_def np_mean_def fdiv_def)
  show ?thesis
    using inst m0 f0 s0 h0 by (simp del: list.map) blast
qed

section \<open>Properties of the alert engine\<close>

text \<open>
  The theorems of this section hold for every threshold calculator \<open>calc\<close> that
  returns a record on each non-empty sample and for every rounding \<open>rnd\<close>. The
  concrete frames below are run with \<open>calculate_dynamic_threshold\<close> and the identity;
  on them float64 computes the same numbers without rounding.
\<close>

lemma tail_4_split:
  assumes "4 \<le> length xs"
  shows "\<exists>earlier a b c d. xs = earlier @ [a, b, c, d] \<and> tail 4 xs = [a, b, c, d]"
proof -
  define ys where "ys = drop (length xs - 4) xs"
  have "length ys = Suc (Suc (Suc (Suc 0)))" using assms by (simp add: ys_def)
  then obtain a b c d where ys: "ys = [a, b, c, d]"
    by (auto simp: length_Suc_conv)
  have "xs = take (length xs - 4) xs @ ys" by (simp add: ys_def)
  then have "xs = take (length xs - 4) xs @ [a, b, c, d]" using ys by simp
  moreover have "tail 4 xs = [a, b, c, d]" using ys by (simp add: tail_def ys_def)
  ultimately show ?thesis by blast
qed

lemma group_alerts_keys:
  assumes "group_alerts calc rnd sens cd cur key grp = Some as" and "a \<in> set as"
  shows "(alert_app a, alert_message_type a) = key"
  using assms
  by (auto simp: group_alerts_def Let_def split: if_splits list.splits bind_splits)

lemma group_alerts_no_data:
  assumes hist: "min_weeks (SENSITIVITY_CONFIGS sens)
                   \<le> length (filter (\<lambda>r. week_start_date r < cd) grp)"
    and nocur: "filter (\<lambda>r. app r = fst key \<and> message_type r = snd key) cur = []"
    and t: "calc (volumes_of (filter (\<lambda>r. week_start_date r < cd) grp)) sens = Some t"
  shows "group_alerts calc rnd sens cd cur key grp =
               Some [\<lparr>alert_app = fst key, alert_message_type = snd key,
                      alert_week_start_date = cd, current_volume = 0,
                      alert_threshold = ti_threshold t, alert_mean_volume = ti_mean t,
                      recent_4wk_avg = None, drop_from_mean_pct = Finite 100,
                      alert_severity = CRITICAL, alert_kind = NO_DATA,
                      alert_message = No_data_received\<rparr>]"
proof -
  let ?h = "filter (\<lambda>r. week_start_date r < cd) grp"
  have "length ?h \<le> length grp" by simp
  then have grp: "\<not> length grp < min_weeks (SENSITIVITY_CONFIGS sens)" using hist by linarith
  show ?thesis
    using grp hist nocur t by (simp add: group_alerts_def Let_def)
qed

lemma group_alerts_observed:
  assumes hist: "min_weeks (SENSITIVITY_CONFIGS sens)
                   \<le> length (filter (\<lambda>r. week_start_date r < cd) grp)"
    and cur: "filter (\<lambda>r. app r = fst key \<and> message_type r = snd key) cur = r0 # rest"
    and t: "calc (volumes_of (filter (\<lambda>r. week_start_date r < cd) grp)) sens = Some t"
  shows "\<exists>earlier a b c d.
           filter (\<lambda>r. week_start_date r < cd) grp = earlier @ [a, b, c, d]
         \<and> group_alerts calc rnd sens cd cur key grp =
             Some (if real_of_int (volume r0) < ti_threshold t then
               [\<lparr>alert_app = fst key, alert_message_type = snd key,
                 alert_week_start_date = cd, current_volume = volume r0,
                 alert_threshold = ti_threshold t, alert_mean_volume = ti_mean t,
                 recent_4wk_avg
                   = Some ((real_of_int (volume a) + real_of_int (volume b)
                            + real_of_int (volume c) + real_of_int (volume d)) / 4),
                 drop_from_mean_pct
                   = float_mul rnd
                       (float_div rnd (rnd (ti_mean t - real_of_int (volume r0))) (ti_mean t))
                       100,
                 alert_severity
                   = severity_of_float
                       (float_mul rnd
                         (float_div rnd (rnd (ti_mean t - real_of_int (volume r0)))
                            (ti_mean t))
                         100),
                 alert_kind = VOLUME_DROP,
                 alert_message
                   = Volume_dropped
                       (float_mul rnd
                         (float_div rnd (rnd (ti_mean t - real_of_int (volume r0)))
                            (ti_mean t))
                         100)\<rparr>]
               else [])"
proof -
  let ?h = "filter (\<lambda>r. week_start_date r < cd) grp"
  have "length ?h \<le> length grp" by simp
  then have grp: "\<not> length grp < min_weeks (SENSITIVITY_CONFIGS sens)" using hist by linarith
  have "4 \<le> length ?h" using hist min_weeks_ge_4 [of sens] by linarith
  then obtain earlier a b c d where split: "?h = earlier @ [a, b, c, d]"
    and tl: "tail 4 ?h = [a, b, c, d]"
    using tail_4_split [of ?h] by blast
  have recent: "np_mean (volumes_of (tail 4 ?h))
                  = Some ((real_of_int (volume a) + real_of_int (volume b)
                            + real_of_int (volume c) + real_of_int (volume d)) / 4)"
    unfolding tl by (simp add: volumes_of_def np_mean_def fdiv_def add.assoc)
  have "group_alerts calc rnd sens cd cur key grp =
             Some (if real_of_int (volume r0) < ti_threshold t then
               [\<lparr>alert_app = fst key, alert_message_type = snd key,
                 alert_week_start_date = cd, current_volume = volume r0,
                 alert_threshold = ti_threshold t, alert_mean_volume = ti_mean t,
                 recent_4wk_avg
                   = Some ((real_of_int (volume a) + real_of_int (volume b)
                            + real_of_int (volume c) + real_of_int (volume d)) / 4),
                 drop_from_mean_pct
                   = float_mul rnd
                       (float_div rnd (rnd (ti_mean t - real_of_int (volume r0))) (ti_mean t))
                       100,
                 alert_severity
                   = severity_of_float
                       (float_mul rnd
                         (float_div rnd (rnd (ti_mean t - real_of_int (volume r0)))
                            (ti_mean t))
                         100),
                 alert_kind = VOLUME_DROP,
                 alert_message
                   = Volume_dropped
                       (float_mul rnd
                         (float_div rnd (rnd (ti_mean t - real_of_int (volume r0)))
                            (ti_mean t))
                         100)\<rparr>]
               else [])"
    using grp hist cur t recent by (simp add: group_alerts_def Let_def)
  then show ?thesis using split by blast
qed

lemma group_alerts_defined:
  assumes "\<And>v. v \<noteq> [] \<Longrightarrow> \<exists>t. calc v sens = Some t"
  shows "\<exists>as. group_alerts calc rnd sens cd cur key grp = Some as"
proof -
  let ?h = "filter (\<lambda>r. week_start_date r < cd) grp"
  let ?c = "filter (\<lambda>r. app r = fst key \<and> message_type r = snd key) cur"
  show ?thesis
  proof (cases "min_weeks (SENSITIVITY_CONFIGS sens) \<le> length ?h")
    case False
    then show ?thesis
      by (cases ?c) (simp_all add: group_alerts_def Let_def)
  next
    case True
    then have "0 < length ?h" using min_weeks_ge_4 [of sens] by linarith
    then have "volumes_of ?h \<noteq> []" by (auto simp: volumes_of_def)
    then obtain t where t: "calc (volumes_of ?h) sens = Some t" using assms by blast
    show ?thesis
    proof (cases ?c)
      case Nil
      then show ?thesis using group_alerts_no_data [where calc = calc, OF True Nil t] by blast
    next
      case (Cons r0 rest)
      then show ?thesis using group_alerts_observed [where calc = calc, OF True Cons t] by blast
    qed
  qed
qed

lemma alerts_loop_result:
  assumes "\<And>k g. (k, g) \<in> set groups \<Longrightarrow> \<exists>as. group_alerts calc rnd sens cd cur k g = Some as"
  shows "alerts_loop calc rnd sens cd cur groups acc =
           Some (acc @ concat (map (\<lambda>(k, g). the (group_alerts calc rnd sens cd cur k g)) groups))"
  using assms
proof (induction groups arbitrary: acc)
  case Nil
  then show ?case by simp
next
  case (Cons kg groups)
  obtain k g where kg: "kg = (k, g)" by (cases kg)
  obtain as where as: "group_alerts calc rnd sens cd cur k g = Some as"
    using Cons.prems [of k g] kg by auto
  have "alerts_loop calc rnd sens cd cur groups (acc @ as) =
           Some ((acc @ as)
             @ concat (map (\<lambda>(k, g). the (group_alerts calc rnd sens cd cur k g)) groups))"
    using Cons.prems by (intro Cons.IH) auto
  then show ?case using kg as by simp
qed

lemma filter_concat_groups:
  assumes "distinct (map fst groups)" and "(k, g) \<in> set groups"
    and "\<And>k' g' a. (k', g') \<in> set groups \<Longrightarrow> a \<in> set (F k' g') \<Longrightarrow> akey a = k'"
  shows "filter (\<lambda>a. akey a = k) (concat (map (\<lambda>(k, g). F k g) groups)) = F k g"
  using assms
proof (induction groups)
  case Nil
  then show ?case by simp
next
  case (Cons kg groups)
  obtain k' g' where kg: "kg = (k', g')" by (cases kg)
  show ?case
  proof (cases "k' = k")
    case True
    then have g: "g' = g" using Cons.prems(1,2) kg by (auto simp: image_iff)
    have here: "filter (\<lambda>a. akey a = k) (F k g) = F k g"
      using Cons.prems(3) [of k g] Cons.prems(2) by (auto simp: filter_id_conv)
    have "\<And>k'' g''. (k'', g'') \<in> set groups \<Longrightarrow> k'' \<noteq> k"
      using Cons.prems(1) kg True by (auto simp: image_iff)
    then have "\<And>k'' g'' a. (k'', g'') \<in> set groups \<Longrightarrow> a \<in> set (F k'' g'') \<Longrightarrow> akey a \<noteq> k"
      using Cons.prems(3) by (metis list.set_intros(2))
    then have "filter (\<lambda>a. akey a = k) (concat (map (\<lambda>(k, g). F k g) groups)) = []"
      by (auto simp: filter_empty_conv)
    then show ?thesis using kg True g here by simp
  next
    case False
    then have "filter (\<lambda>a. akey a = k) (F k' g') = []"
      using Cons.prems(3) [of k' g'] kg by (auto simp: filter_empty_conv)
    moreover have "filter (\<lambda>a. akey a = k) (concat (map (\<lambda>(k, g). F k g) groups)) = F k g"
      using Cons.prems False kg by (intro Cons.IH) auto
    ultimately show ?thesis using kg by simp
  qed
qed

lemma groupby_distinct: "distinct (map fst (groupby df))"
  by (simp add: groupby_def comp_def)

lemma groupby_member:
  "(k, g) \<in> set (groupby df) \<longleftrightarrow> k \<in> key_of ` set df \<and> g = filter (\<lambda>r. key_of r = k) df"
  by (auto simp: groupby_def)

lemma detect_weekly_alerts_for_key:
  assumes calc: "\<And>v. v \<noteq> [] \<Longrightarrow> \<exists>t. calc v sens = Some t"
    and week: "filter (\<lambda>r. week_start_date r = cd) df \<noteq> []"
    and key: "key \<in> key_of ` set df"
  shows "\<exists>alerts as. detect_weekly_alerts calc rnd df cd sens = Some alerts
           \<and> group_alerts calc rnd sens cd (filter (\<lambda>r. week_start_date r = cd) df) key
                (filter (\<lambda>r. key_of r = key) df) = Some as
           \<and> filter (\<lambda>a. (alert_app a, alert_message_type a) = key) alerts = as"
proof -
  let ?cur = "filter (\<lambda>r. week_start_date r = cd) df"
  let ?F = "\<lambda>k g. the (group_alerts calc rnd sens cd ?cur k g)"
  have defd: "\<And>k g. \<exists>as. group_alerts calc rnd sens cd ?cur k g = Some as"
    using calc by (rule group_alerts_defined)
  have res: "detect_weekly_alerts calc rnd df cd sens
               = Some (concat (map (\<lambda>(k, g). ?F k g) (groupby df)))"
    using week alerts_loop_result [of "groupby df" calc rnd sens cd ?cur "[]"] defd
    by (simp add: detect_weekly_alerts_def Let_def)
  have mem: "(key, filter (\<lambda>r. key_of r = key) df) \<in> set (groupby df)"
    using key by (simp add: groupby_member)
  obtain as where as: "group_alerts calc rnd sens cd ?cur key (filter (\<lambda>r. key_of r = key) df) = Some as"
    using defd by blast
  have keys: "\<And>k' g' a. (k', g') \<in> set (groupby df) \<Longrightarrow> a \<in> set (?F k' g')
                \<Longrightarrow> (alert_app a, alert_message_type a) = k'"
  proof -
    fix k' g' a assume a: "a \<in> set (?F k' g')"
    obtain as' where "group_alerts calc rnd sens cd ?cur k' g' = Some as'" using defd by blast
    then show "(alert_app a, alert_message_type a) = k'"
      using a group_alerts_keys [of calc rnd sens cd ?cur k' g' as' a] by simp
  qed
  have "filter (\<lambda>a. (alert_app a, alert_message_type a) = key)
          (concat (map (\<lambda>(k, g). ?F k g) (groupby df)))
        = ?F key (filter (\<lambda>r. key_of r = key) df)"
    using groupby_distinct mem keys
    by (rule filter_concat_groups [where F = ?F and akey = "\<lambda>a. (alert_app a, alert_message_type a)"])
  then show ?thesis using res as by simp
qed

lemma key_of_eq: "key_of r = key \<longleftrightarrow> app r = fst key \<and> message_type r = snd key"
  by (cases key) (auto simp: key_of_def)

lemma history_of_group:
  "filter (\<lambda>r. week_start_date r < cd) (filter (\<lambda>r. key_of r = key) df)
     = filter (\<lambda>r. key_of r = key \<and> week_start_date r < cd) df"
  by simp

lemma current_of_key:
  "filter (\<lambda>r. app r = fst key \<and> message_type r = snd key)
       (filter (\<lambda>r. week_start_date r = cd) df)
     = filter (\<lambda>r. key_of r = key \<and> week_start_date r = cd) df"
  by (auto simp: key_of_eq intro: filter_cong)

lemma drop_pct_value:
  "float_mul rnd (float_div rnd n m) 100 =
     (if m = 0 then (if n > 0 then Pos_inf else if n < 0 then Neg_inf else Nan)
      else Finite (rnd (rnd (n / m) * 100)))"
  by (simp add: float_mul_def float_div_def)

lemma severity_of_float_bands:
  "severity_of_float x =
     (case x of
        Finite x \<Rightarrow>
          (if x \<ge> 70 then CRITICAL
           else if 50 \<le> x \<and> x < 70 then HIGH
           else if 30 \<le> x \<and> x < 50 then MEDIUM
           else LOW)
      | Pos_inf \<Rightarrow> CRITICAL
      | Neg_inf \<Rightarrow> LOW
      | Nan \<Rightarrow> LOW)"
  by (simp add: severity_of_float_def severity_of_def split: float64.splits)

text \<open>
  Claim C1, with the condition the code adds. Let the category have at least
  \<open>min_weeks\<close> observations strictly before the checked week and none in it. If the
  data holds no observation of any category for the checked week, the engine returns
  no alert at all. Otherwise it emits exactly one alert for the category: NO\_DATA,
  CRITICAL, current volume 0, drop 100, with the threshold and the mean that the
  threshold calculator computes from the observations before the checked week only.
\<close>

theorem no_data_alert:
  assumes calc: "\<And>v. v \<noteq> [] \<Longrightarrow> \<exists>t. calc v sens = Some t"
    and hist: "min_weeks (SENSITIVITY_CONFIGS sens)
                 \<le> length (filter (\<lambda>r. key_of r = key \<and> week_start_date r < check_date) df)"
    and missing: "filter (\<lambda>r. key_of r = key \<and> week_start_date r = check_date) df = []"
  shows "(filter (\<lambda>r. week_start_date r = check_date) df = []
            \<longrightarrow> detect_weekly_alerts calc rnd df check_date sens = Some [])
       \<and> (filter (\<lambda>r. week_start_date r = check_date) df \<noteq> []
            \<longrightarrow> (\<exists>alerts t.
                  detect_weekly_alerts calc rnd df check_date sens = Some alerts
                \<and> calc (volumes_of
                     (filter (\<lambda>r. key_of r = key \<and> week_start_date r < check_date) df))
                     sens = Some t
                \<and> filter (\<lambda>a. (alert_app a, alert_message_type a) = key) alerts =
                    [\<lparr>alert_app = fst key, alert_message_type = snd key,
                      alert_week_start_date = check_date, current_volume = 0,
                      alert_threshold = ti_threshold t, alert_mean_volume = ti_mean t,
                      recent_4wk_avg = None, drop_from_mean_pct = Finite 100,
                      alert_severity = CRITICAL, alert_kind = NO_DATA,
                      alert_message = No_data_received\<rparr>]))"
proof (intro conjI impI)
  assume "filter (\<lambda>r. week_start_date r = check_date) df = []"
  then show "detect_weekly_alerts calc rnd df check_date sens = Some []"
    by (simp add: detect_weekly_alerts_def)
next
  assume week: "filter (\<lambda>r. week_start_date r = check_date) df \<noteq> []"
  let ?cur = "filter (\<lambda>r. week_start_date r = check_date) df"
  let ?grp = "filter (\<lambda>r. key_of r = key) df"
  let ?h = "filter (\<lambda>r. key_of r = key \<and> week_start_date r < check_date) df"
  have hpos: "0 < length ?h" using hist min_weeks_ge_4 [of sens] by linarith
  then obtain r where "r \<in> set df" "key_of r = key"
    unfolding length_greater_0_conv by (auto simp: filter_empty_conv)
  then have key: "key \<in> key_of ` set df" by auto
  obtain alerts as where res: "detect_weekly_alerts calc rnd df check_date sens = Some alerts"
    and as: "group_alerts calc rnd sens check_date ?cur key ?grp = Some as"
    and flt: "filter (\<lambda>a. (alert_app a, alert_message_type a) = key) alerts = as"
    using detect_weekly_alerts_for_key [where calc = calc, OF calc week key] by blast
  have "volumes_of ?h \<noteq> []" using hpos by (auto simp: volumes_of_def)
  then obtain t where t: "calc (volumes_of ?h) sens = Some t" using calc by blast
  have h: "min_weeks (SENSITIVITY_CONFIGS sens)
             \<le> length (filter (\<lambda>r. week_start_date r < check_date) ?grp)"
    using hist by (simp only: history_of_group)
  have c: "filter (\<lambda>r. app r = fst key \<and> message_type r = snd key) ?cur = []"
    using missing by (simp only: current_of_key)
  have t': "calc (volumes_of (filter (\<lambda>r. week_start_date r < check_date) ?grp)) sens = Some t"
    using t by (simp only: history_of_group)
  show "\<exists>alerts t.
          detect_weekly_alerts calc rnd df check_date sens = Some alerts
        \<and> calc (volumes_of ?h) sens = Some t
        \<and> filter (\<lambda>a. (alert_app a, alert_message_type a) = key) alerts =
            [\<lparr>alert_app = fst key, alert_message_type = snd key,
              alert_week_start_date = check_date, current_volume = 0,
              alert_threshold = ti_threshold t, alert_mean_volume = ti_mean t,
              recent_4wk_avg = None, drop_from_mean_pct = Finite 100,
              alert_severity = CRITICAL, alert_kind = NO_DATA,
              alert_message = No_data_received\<rparr>]"
    using group_alerts_no_data [where calc = calc and rnd = rnd, OF h c t'] as res flt t by auto
qed

text \<open>
  A data frame with two categories: six weeks of APP\_01 and nothing for it in week
  42, in which APP\_02 reports.
\<close>

theorem no_data_alert_witness:
  "let df = map (\<lambda>(d, v). \<lparr>app = ''APP_01'', message_type = ''MT103'', week_start_date = d,
                            volume = v\<rparr>)
              [(0, 1020), (7, 990), (14, 990), (21, 1000), (28, 1000), (35, 1000)]
            @ [\<lparr>app = ''APP_02'', message_type = ''MT103'', week_start_date = 42, volume = 7\<rparr>];
       key = (''APP_01'', ''MT103'')
   in (\<forall>v. v = [] \<or> (\<exists>t. calculate_dynamic_threshold v Sens_medium = Some t))
    \<and> min_weeks (SENSITIVITY_CONFIGS Sens_medium)
        \<le> length (filter (\<lambda>r. key_of r = key \<and> week_start_date r < 42) df)
    \<and> filter (\<lambda>r. key_of r = key \<and> week_start_date r = 42) df = []
    \<and> filter (\<lambda>r. week_start_date r = 42) df \<noteq> []
    \<and> (\<exists>alerts. detect_weekly_alerts calculate_dynamic_threshold (\<lambda>x. x) df 42 Sens_medium
                    = Some alerts
          \<and> length (filter (\<lambda>a. (alert_app a, alert_message_type a) = key) alerts) = 1)
    \<and> detect_weekly_alerts calculate_dynamic_threshold (\<lambda>x. x) df 42 Sens_medium =
        Some [\<lparr>alert_app = ''APP_01'', alert_message_type = ''MT103'',
               alert_week_start_date = 42, current_volume = 0,
               alert_threshold = 990, alert_mean_volume = 1000,
               recent_4wk_avg = None, drop_from_mean_pct = Finite 100,
               alert_severity = CRITICAL, alert_kind = NO_DATA,
               alert_message = No_data_received\<rparr>]"
proof -
  define df where "df = map (\<lambda>(d, v). \<lparr>app = ''APP_01'', message_type = ''MT103'', week_start_date = d,
                            volume = v\<rparr>)
              [(0, 1020), (7, 990), (14, 990), (21, 1000), (28, 1000), (35, 1000)]
            @ [\<lparr>app = ''APP_02'', message_type = ''MT103'', week_start_date = 42, volume = 7\<rparr>]"
  define key where "key = (''APP_01'', ''MT103'')"
  have h0: "\<And>v. v \<noteq> [] \<Longrightarrow> \<exists>t. calculate_dynamic_threshold v Sens_medium = Some t"
    by (rule calculate_dynamic_threshold_total)
  have h1: "min_weeks (SENSITIVITY_CONFIGS Sens_medium)
        \<le> length (filter (\<lambda>r. key_of r = key \<and> week_start_date r < 42) df)"
    by (simp add: df_def key_def key_of_def SENSITIVITY_CONFIGS_def)
  have h2: "filter (\<lambda>r. key_of r = key \<and> week_start_date r = 42) df = []"
    by (simp add: df_def key_def key_of_def)
  have h3: "filter (\<lambda>r. week_start_date r = 42) df \<noteq> []" by (simp add: df_def)
  have ev: "detect_weekly_alerts calculate_dynamic_threshold (\<lambda>x. x) df 42 Sens_medium =
        Some [\<lparr>alert_app = ''APP_01'', alert_message_type = ''MT103'',
               alert_week_start_date = 42, current_volume = 0,
               alert_threshold = 990, alert_mean_volume = 1000,
               recent_4wk_avg = None, drop_from_mean_pct = Finite 100,
               alert_severity = CRITICAL, alert_kind = NO_DATA,
               alert_message = No_data_received\<rparr>]"
    by (simp add: df_def detect_weekly_alerts_def groupby_def key_of_def group_alerts_def
        SENSITIVITY_CONFIGS_def calculate_dynamic_threshold_def volumes_of_def np_mean_def
        np_std_def fdiv_def np_percentile_def sqrt_100)
  have "\<exists>alerts. detect_weekly_alerts calculate_dynamic_threshold (\<lambda>x. x) df 42 Sens_medium
                    = Some alerts
          \<and> length (filter (\<lambda>a. (alert_app a, alert_message_type a) = key) alerts) = 1"
    using no_data_alert [where calc = calculate_dynamic_threshold and rnd = "\<lambda>x. x",
        OF h0 h1 h2] h3
    by auto
  moreover have "\<forall>v. v = [] \<or> (\<exists>t. calculate_dynamic_threshold v Sens_medium = Some t)"
    using h0 by blast
  ultimately show ?thesis
    using h1 h2 h3 ev unfolding Let_def df_def [symmetric] key_def [symmetric] by blast
qed

text \<open>
  Without an observation of any category in the checked week the first guard returns
  the empty frame: six weeks of history alone, checked at week 42, give no alert,
  although the category has \<open>min_weeks\<close> observations before week 42 and none in it.
\<close>

theorem no_data_alert_counterexample:
  "min_weeks (SENSITIVITY_CONFIGS Sens_medium)
     \<le> length (filter (\<lambda>r. key_of r = (''APP_01'', ''MT103'') \<and> week_start_date r < 42)
         (map (\<lambda>d. \<lparr>app = ''APP_01'', message_type = ''MT103'', week_start_date = d,
                    volume = 1000\<rparr>) [0, 7, 14, 21, 28, 35]))
   \<and> filter (\<lambda>r. key_of r = (''APP_01'', ''MT103'') \<and> week_start_date r = 42)
         (map (\<lambda>d. \<lparr>app = ''APP_01'', message_type = ''MT103'', week_start_date = d,
                    volume = 1000\<rparr>) [0, 7, 14, 21, 28, 35]) = []
   \<and> detect_weekly_alerts calculate_dynamic_threshold (\<lambda>x. x)
         (map (\<lambda>d. \<lparr>app = ''APP_01'', message_type = ''MT103'', week_start_date = d,
                    volume = 1000\<rparr>) [0, 7, 14, 21, 28, 35]) 42 Sens_medium = Some []"
  by (simp add: SENSITIVITY_CONFIGS_def key_of_def detect_weekly_alerts_def)

text \<open>
  Claim C2, without the guard the code does not have. Let the category have an
  observation in the checked week (\<open>r0\<close>, the first one in row order) and at least
  \<open>min_weeks\<close> observations strictly before it. Then the engine emits an alert for
  the category if and only if the observed count is below the threshold computed from
  the earlier observations, and the alert is a single VOLUME\_DROP alert. Its drop is
  \<open>(mean - observed) / mean * 100\<close> as float64 computes it, each operation rounded;
  the division has no guard, so for a mean of 0 the drop is an infinity or nan, not 0.
  Its severity is CRITICAL from 70 (and for the positive infinity), HIGH from 50 to 70,
  MEDIUM from 30 to 50 and LOW below (and for the negative infinity and nan). It
  carries the average of the last four earlier observations \<open>a, b, c, d\<close> in row
  order.
\<close>

theorem volume_drop_alert:
  assumes calc: "\<And>v. v \<noteq> [] \<Longrightarrow> \<exists>t. calc v sens = Some t"
    and hist: "min_weeks (SENSITIVITY_CONFIGS sens)
                 \<le> length (filter (\<lambda>r. key_of r = key \<and> week_start_date r < check_date) df)"
    and observed: "filter (\<lambda>r. key_of r = key \<and> week_start_date r = check_date) df
                     = r0 # rest"
  shows "\<exists>alerts t earlier a b c d.
           detect_weekly_alerts calc rnd df check_date sens = Some alerts
         \<and> calc (volumes_of
              (filter (\<lambda>r. key_of r = key \<and> week_start_date r < check_date) df)) sens = Some t
         \<and> filter (\<lambda>r. key_of r = key \<and> week_start_date r < check_date) df
             = earlier @ [a, b, c, d]
         \<and> filter (\<lambda>a. (alert_app a, alert_message_type a) = key) alerts =
             (if real_of_int (volume r0) < ti_threshold t then
                (let difference = rnd (ti_mean t - real_of_int (volume r0));
                     drop_pct =
                       (if ti_mean t = 0 then
                          (if difference > 0 then Pos_inf
                           else if difference < 0 then Neg_inf else Nan)
                        else Finite (rnd (rnd (difference / ti_mean t) * 100)))
                 in [\<lparr>alert_app = fst key, alert_message_type = snd key,
                      alert_week_start_date = check_date, current_volume = volume r0,
                      alert_threshold = ti_threshold t, alert_mean_volume = ti_mean t,
                      recent_4wk_avg
                        = Some ((real_of_int (volume a) + real_of_int (volume b)
                                 + real_of_int (volume c) + real_of_int (volume d)) / 4),
                      drop_from_mean_pct = drop_pct,
                      alert_severity =
                        (case drop_pct of
                           Finite x \<Rightarrow>
                             (if x \<ge> 70 then CRITICAL
                              else if 50 \<le> x \<and> x < 70 then HIGH
                              else if 30 \<le> x \<and> x < 50 then MEDIUM
                              else LOW)
                         | Pos_inf \<Rightarrow> CRITICAL
                         | Neg_inf \<Rightarrow> LOW
                         | Nan \<Rightarrow> LOW),
                      alert_kind = VOLUME_DROP,
                      alert_message = Volume_dropped drop_pct\<rparr>])
              else [])"
proof -
  let ?cur = "filter (\<lambda>r. week_start_date r = check_date) df"
  let ?grp = "filter (\<lambda>r. key_of r = key) df"
  let ?h = "filter (\<lambda>r. key_of r = key \<and> week_start_date r < check_date) df"
  have "r0 \<in> set (filter (\<lambda>r. key_of r = key \<and> week_start_date r = check_date) df)"
    using observed by simp
  then have r0: "r0 \<in> set df" "key_of r0 = key" "week_start_date r0 = check_date" by auto
  then have key: "key \<in> key_of ` set df" by auto
  have "r0 \<in> set ?cur" using r0 by simp
  then have week: "?cur \<noteq> []" by (metis empty_iff empty_set)
  obtain alerts as where res: "detect_weekly_alerts calc rnd df check_date sens = Some alerts"
    and as: "group_alerts calc rnd sens check_date ?cur key ?grp = Some as"
    and flt: "filter (\<lambda>a. (alert_app a, alert_message_type a) = key) alerts = as"
    using detect_weekly_alerts_for_key [where calc = calc, OF calc week key] by blast
  have hpos: "0 < length ?h" using hist min_weeks_ge_4 [of sens] by linarith
  then have "volumes_of ?h \<noteq> []" by (auto simp: volumes_of_def)
  then obtain t where t: "calc (volumes_of ?h) sens = Some t" using calc by blast
  have h: "min_weeks (SENSITIVITY_CONFIGS sens)
             \<le> length (filter (\<lambda>r. week_start_date r < check_date) ?grp)"
    using hist by (simp only: history_of_group)
  have c: "filter (\<lambda>r. app r = fst key \<and> message_type r = snd key) ?cur = r0 # rest"
    using observed by (simp only: current_of_key)
  have t': "calc (volumes_of (filter (\<lambda>r. week_start_date r < check_date) ?grp)) sens = Some t"
    using t by (simp only: history_of_group)
  obtain earlier a b c d where split: "?h = earlier @ [a, b, c, d]"
    and ga: "group_alerts calc rnd sens check_date ?cur key ?grp =
             Some (if real_of_int (volume r0) < ti_threshold t then
               [\<lparr>alert_app = fst key, alert_message_type = snd key,
                 alert_week_start_date = check_date, current_volume = volume r0,
                 alert_threshold = ti_threshold t, alert_mean_volume = ti_mean t,
                 recent_4wk_avg
                   = Some ((real_of_int (volume a) + real_of_int (volume b)
                            + real_of_int (volume c) + real_of_int (volume d)) / 4),
                 drop_from_mean_pct
                   = float_mul rnd
                       (float_div rnd (rnd (ti_mean t - real_of_int (volume r0))) (ti_mean t))
                       100,
                 alert_severity
                   = severity_of_float
                       (float_mul rnd
                         (float_div rnd (rnd (ti_mean t - real_of_int (volume r0)))
                            (ti_mean t))
                         100),
                 alert_kind = VOLUME_DROP,
                 alert_message
                   = Volume_dropped
                       (float_mul rnd
                         (float_div rnd (rnd (ti_mean t - real_of_int (volume r0)))
                            (ti_mean t))
                         100)\<rparr>]
               else [])"
    using group_alerts_observed [where calc = calc and rnd = rnd, OF h c t']
    unfolding history_of_group by blast
  define drop where "drop =
     (if ti_mean t = 0 then
        (if rnd (ti_mean t - real_of_int (volume r0)) > 0 then Pos_inf
         else if rnd (ti_mean t - real_of_int (volume r0)) < 0 then Neg_inf else Nan)
      else Finite (rnd (rnd (rnd (ti_mean t - real_of_int (volume r0)) / ti_mean t) * 100)))"
  have dv: "float_mul rnd
              (float_div rnd (rnd (ti_mean t - real_of_int (volume r0))) (ti_mean t)) 100
            = drop"
    by (simp only: drop_pct_value drop_def)
  have sv: "severity_of_float drop =
     (case drop of
        Finite x \<Rightarrow>
          (if x \<ge> 70 then CRITICAL
           else if 50 \<le> x \<and> x < 70 then HIGH
           else if 30 \<le> x \<and> x < 50 then MEDIUM
           else LOW)
      | Pos_inf \<Rightarrow> CRITICAL
      | Neg_inf \<Rightarrow> LOW
      | Nan \<Rightarrow> LOW)"
    by (rule severity_of_float_bands)
  have "filter (\<lambda>a. (alert_app a, alert_message_type a) = key) alerts =
             (if real_of_int (volume r0) < ti_threshold t then
                (let difference = rnd (ti_mean t - real_of_int (volume r0));
                     drop_pct =
                       (if ti_mean t = 0 then
                          (if difference > 0 then Pos_inf
                           else if difference < 0 then Neg_inf else Nan)
                        else Finite (rnd (rnd (difference / ti_mean t) * 100)))
                 in [\<lparr>alert_app = fst key, alert_message_type = snd key,
                      alert_week_start_date = check_date, current_volume = volume r0,
                      alert_threshold = ti_threshold t, alert_mean_volume = ti_mean t,
                      recent_4wk_avg
                        = Some ((real_of_int (volume a) + real_of_int (volume b)
                                 + real_of_int (volume c) + real_of_int (volume d)) / 4),
                      drop_from_mean_pct = drop_pct,
                      alert_severity =
                        (case drop_pct of
                           Finite x \<Rightarrow>
                             (if x \<ge> 70 then CRITICAL
                              else if 50 \<le> x \<and> x < 70 then HIGH
                              else if 30 \<le> x \<and> x < 50 then MEDIUM
                              else LOW)
                         | Pos_inf \<Rightarrow> CRITICAL
                         | Neg_inf \<Rightarrow> LOW
                         | Nan \<Rightarrow> LOW),
                      alert_kind = VOLUME_DROP,
                      alert_message = Volume_dropped drop_pct\<rparr>])
              else [])"
    unfolding Let_def drop_def [symmetric] sv [symmetric]
    using as ga [unfolded dv] flt by (cases "real_of_int (volume r0) < ti_threshold t") auto
  then show ?thesis using res t split by blast
qed

text \<open>
  Six weeks with mean 1000 and threshold 990, and an observation of 700 in week 42:
  the drop is 30 percent, the severity MEDIUM, and the average of the last four weeks
  997.5 differs from the mean of all six.
\<close>

theorem volume_drop_alert_witness:
  "let df = map (\<lambda>(d, v). \<lparr>app = ''APP_01'', message_type = ''MT103'', week_start_date = d,
                            volume = v\<rparr>)
              [(0, 1020), (7, 990), (14, 990), (21, 1000), (28, 1000), (35, 1000), (42, 700)];
       key = (''APP_01'', ''MT103'')
   in (\<forall>v. v = [] \<or> (\<exists>t. calculate_dynamic_threshold v Sens_medium = Some t))
    \<and> min_weeks (SENSITIVITY_CONFIGS Sens_medium)
        \<le> length (filter (\<lambda>r. key_of r = key \<and> week_start_date r < 42) df)
    \<and> filter (\<lambda>r. key_of r = key \<and> week_start_date r = 42) df
        = [\<lparr>app = ''APP_01'', message_type = ''MT103'', week_start_date = 42, volume = 700\<rparr>]
    \<and> (\<exists>alerts t earlier a b c d.
          detect_weekly_alerts calculate_dynamic_threshold (\<lambda>x. x) df 42 Sens_medium
            = Some alerts
        \<and> calculate_dynamic_threshold
            (volumes_of (filter (\<lambda>r. key_of r = key \<and> week_start_date r < 42) df))
            Sens_medium = Some t
        \<and> filter (\<lambda>r. key_of r = key \<and> week_start_date r < 42) df = earlier @ [a, b, c, d])
    \<and> detect_weekly_alerts calculate_dynamic_threshold (\<lambda>x. x) df 42 Sens_medium =
        Some [\<lparr>alert_app = ''APP_01'', alert_message_type = ''MT103'',
               alert_week_start_date = 42, current_volume = 700,
               alert_threshold = 990, alert_mean_volume = 1000,
               recent_4wk_avg = Some 997.5, drop_from_mean_pct = Finite 30,
               alert_severity = MEDIUM, alert_kind = VOLUME_DROP,
               alert_message = Volume_dropped (Finite 30)\<rparr>]"
proof -
  define df where "df = map (\<lambda>(d, v). \<lparr>app = ''APP_01'', message_type = ''MT103'', week_start_date = d,
                            volume = v\<rparr>)
              [(0, 1020), (7, 990), (14, 990), (21, 1000), (28, 1000), (35, 1000), (42, 700)]"
  define key where "key = (''APP_01'', ''MT103'')"
  have h0: "\<And>v. v \<noteq> [] \<Longrightarrow> \<exists>t. calculate_dynamic_threshold v Sens_medium = Some t"
    by (rule calculate_dynamic_threshold_total)
  have h1: "min_weeks (SENSITIVITY_CONFIGS Sens_medium)
        \<le> length (filter (\<lambda>r. key_of r = key \<and> week_start_date r < 42) df)"
    by (simp add: df_def key_def key_of_def SENSITIVITY_CONFIGS_def)
  have h2: "filter (\<lambda>r. key_of r = key \<and> week_start_date r = 42) df
        = \<lparr>app = ''APP_01'', message_type = ''MT103'', week_start_date = 42, volume = 700\<rparr> # []"
    by (simp add: df_def key_def key_of_def)
  have ev: "detect_weekly_alerts calculate_dynamic_threshold (\<lambda>x. x) df 42 Sens_medium =
        Some [\<lparr>alert_app = ''APP_01'', alert_message_type = ''MT103'',
               alert_week_start_date = 42, current_volume = 700,
               alert_threshold = 990, alert_mean_volume = 1000,
               recent_4wk_avg = Some 997.5, drop_from_mean_pct = Finite 30,
               alert_severity = MEDIUM, alert_kind = VOLUME_DROP,
               alert_message = Volume_dropped (Finite 30)\<rparr>]"
    by (simp add: df_def detect_weekly_alerts_def groupby_def key_of_def group_alerts_def
        SENSITIVITY_CONFIGS_def calculate_dynamic_threshold_def volumes_of_def np_mean_def
        np_std_def fdiv_def np_percentile_def tail_def severity_of_float_def severity_of_def
        float_mul_def float_div_def sqrt_100 Let_def)
  have "\<exists>alerts t earlier a b c d.
          detect_weekly_alerts calculate_dynamic_threshold (\<lambda>x. x) df 42 Sens_medium
            = Some alerts
        \<and> calculate_dynamic_threshold
            (volumes_of (filter (\<lambda>r. key_of r = key \<and> week_start_date r < 42) df))
            Sens_medium = Some t
        \<and> filter (\<lambda>r. key_of r = key \<and> week_start_date r < 42) df = earlier @ [a, b, c, d]"
    using volume_drop_alert [where calc = calculate_dynamic_threshold and rnd = "\<lambda>x. x",
        OF h0 h1 h2]
    by blast
  moreover have "\<forall>v. v = [] \<or> (\<exists>t. calculate_dynamic_threshold v Sens_medium = Some t)"
    using h0 by blast
  ultimately show ?thesis
    using h1 h2 ev unfolding Let_def df_def [symmetric] key_def [symmetric] by blast
qed

text \<open>
  A history of zeros has mean 0 and threshold 0. An observation of -5 is below the
  threshold, and the drop of the alert is the positive infinity with severity
  CRITICAL: it is not 0, and the severity is not the LOW that a drop of 0 would give.
\<close>

theorem volume_drop_alert_counterexample:
  "min_weeks (SENSITIVITY_CONFIGS Sens_medium)
     \<le> length (filter (\<lambda>r. key_of r = (''APP_01'', ''MT103'') \<and> week_start_date r < 42)
         (map (\<lambda>(d, v). \<lparr>app = ''APP_01'', message_type = ''MT103'', week_start_date = d,
                         volume = v\<rparr>)
            [(0, 0), (7, 0), (14, 0), (21, 0), (28, 0), (35, 0), (42, - 5)]))
   \<and> detect_weekly_alerts calculate_dynamic_threshold (\<lambda>x. x)
         (map (\<lambda>(d, v). \<lparr>app = ''APP_01'', message_type = ''MT103'', week_start_date = d,
                         volume = v\<rparr>)
            [(0, 0), (7, 0), (14, 0), (21, 0), (28, 0), (35, 0), (42, - 5)]) 42 Sens_medium =
        Some [\<lparr>alert_app = ''APP_01'', alert_message_type = ''MT103'',
               alert_week_start_date = 42, current_volume = - 5,
               alert_threshold = 0, alert_mean_volume = 0,
               recent_4wk_avg = Some 0, drop_from_mean_pct = Pos_inf,
               alert_severity = CRITICAL, alert_kind = VOLUME_DROP,
               alert_message = Volume_dropped Pos_inf\<rparr>]"
  by (simp add: detect_weekly_alerts_def groupby_def key_of_def group_alerts_def
      SENSITIVITY_CONFIGS_def calculate_dynamic_threshold_def volumes_of_def np_mean_def
      np_std_def fdiv_def np_percentile_def tail_def severity_of_float_def
      float_mul_def float_div_def Let_def)

end
